theory Spec2Isabelle
  imports Main "HOL-Library.Signed_Division"
begin

section \<open>Chat list row layout (dialogs/ui/dialogs_layout.cpp)\<close>

text \<open>
  A shallow embedding of the row painting policy of
  \<^verbatim>\<open>Telegram/SourceFiles/dialogs/ui/dialogs_layout.cpp\<close>.

  Painting is modelled as the list of drawing events a function issues, in the
  order of the source.  What is kept of every draw call is which element is drawn
  and in which colour variant; pixel positions are left out.  Sizes are kept where
  a function returns them (badge rectangles, the remaining text width).  C++
  \<^verbatim>\<open>int\<close> values are pixel counts and small counters; they are modelled as
  unbounded integers.  Data that the file reads through accessors of other modules
  (entries, threads, messages, drafts, fonts, style constants) is passed in as
  records holding the accessors' results.
\<close>

subsection \<open>Badge geometry\<close>

text \<open>
  \<^verbatim>\<open>ComputeUnreadBadgeText\<close>: \<^verbatim>\<open>QString::size\<close> is the length of the
  string and \<^verbatim>\<open>mid(n)\<close> the part from position \<open>n\<close> to the end.
\<close>

definition ComputeUnreadBadgeText :: "string \<Rightarrow> int \<Rightarrow> string" where
  "ComputeUnreadBadgeText unreadCount allowDigits =
     (if allowDigits > 0 \<and> int (length unreadCount) > allowDigits + 1
      then ''..'' @ drop (nat (int (length unreadCount) - allowDigits)) unreadCount
      else unreadCount)"

text \<open>The last \<open>n\<close> characters of a string, as the specification words it.\<close>

definition lastChars :: "nat \<Rightarrow> string \<Rightarrow> string" where
  "lastChars n s = rev (take n (rev s))"

text \<open>
  The three colour variants every element comes in: the source selects them with
  \<^verbatim>\<open>context.active ? xActive : context.selected ? xOver : x\<close>.
\<close>

datatype variant = Plain | Over | Active

definition variantOf :: "bool \<Rightarrow> bool \<Rightarrow> variant" where
  "variantOf isActive isSelected =
     (if isActive then Active else if isSelected then Over else Plain)"

text \<open>
  \<^verbatim>\<open>UnreadBadgeSize\<close>: the two size classes this file names; the enumeration's
  other members are \<open>OtherBadgeSize\<close>.
\<close>

datatype UnreadBadgeSize = Dialogs | ReactionInDialogs | OtherBadgeSize nat

text \<open>A font is known by the width it measures for a text (\<^verbatim>\<open>font->width(text)\<close>).\<close>

type_synonym font = "string \<Rightarrow> int"

record UnreadBadgeStyle =
  st_active :: bool
  st_selected :: bool
  st_muted :: bool
  st_textTop :: int
  st_size :: int
  st_padding :: int
  st_sizeId :: UnreadBadgeSize
  st_font :: font

text \<open>The style constants of \<^verbatim>\<open>st::\<close> that decide sizes.\<close>

record StyleConsts =
  dialogsUnreadHeight :: int
  dialogsUnreadPadding :: int
  dialogsUnreadFont :: font
  dialogsPinnedIconWidth :: "variant \<Rightarrow> int"
  dialogsTextFontHeight :: int

text \<open>
  The constructor \<^verbatim>\<open>UnreadBadgeStyle::UnreadBadgeStyle()\<close> sets size, padding and
  font from the style constants; the flags start false, the size class is
  \<open>Dialogs\<close> and \<open>textTop\<close> is zero.
\<close>

definition UnreadBadgeStyle_init :: "StyleConsts \<Rightarrow> UnreadBadgeStyle" where
  "UnreadBadgeStyle_init S =
     \<lparr> st_active = False, st_selected = False, st_muted = False, st_textTop = 0,
       st_size = dialogsUnreadHeight S, st_padding = dialogsUnreadPadding S,
       st_sizeId = Dialogs, st_font = dialogsUnreadFont S \<rparr>"

text \<open>\<^verbatim>\<open>CountUnreadBadgeSize\<close> returns a \<^verbatim>\<open>QSize\<close>: (width, height).\<close>

definition CountUnreadBadgeSize :: "string \<Rightarrow> UnreadBadgeStyle \<Rightarrow> int \<Rightarrow> int \<times> int" where
  "CountUnreadBadgeSize unreadCount st allowDigits =
     (let text = ComputeUnreadBadgeText unreadCount allowDigits;
          unreadRectHeight = st_size st;
          unreadWidth = st_font st text
      in (max (unreadWidth + 2 * st_padding st) unreadRectHeight, unreadRectHeight))"

subsection \<open>Badge background\<close>

text \<open>The two six-entry colour tables of \<^verbatim>\<open>UnreadBadgeStyleData\<close>.\<close>

datatype color =
    DialogsUnreadBg | DialogsUnreadBgOver | DialogsUnreadBgActive
  | DialogsUnreadBgMuted | DialogsUnreadBgMutedOver | DialogsUnreadBgMutedActive
  | DialogsDraftFg | DialogsDraftFgOver | DialogsDraftFgActive

definition bg :: "color list" where
  "bg = [DialogsUnreadBg, DialogsUnreadBgOver, DialogsUnreadBgActive,
         DialogsUnreadBgMuted, DialogsUnreadBgMutedOver, DialogsUnreadBgMutedActive]"

definition reactionBg :: "color list" where
  "reactionBg = [DialogsDraftFg, DialogsDraftFgOver, DialogsDraftFgActive,
         DialogsUnreadBgMuted, DialogsUnreadBgMutedOver, DialogsUnreadBgMutedActive]"

text \<open>
  The cache index of \<^verbatim>\<open>PaintUnreadBadge(p, rect, st)\<close>:
  \<^verbatim>\<open>(st.muted ? 0x03 : 0x00) + (st.active ? 0x02 : (st.selected ? 0x01 : 0x00))\<close>.
\<close>

definition badgeIndex :: "UnreadBadgeStyle \<Rightarrow> nat" where
  "badgeIndex st =
     (if st_muted st then 3 else 0)
     + (if st_active st then 2 else (if st_selected st then 1 else 0))"

text \<open>
  The index as the specification words it:
  2 \<times> mutedFlag + 2 \<times> activeFlag + selectedFlag.
\<close>

definition flagValue :: "bool \<Rightarrow> nat" where
  "flagValue b = (if b then 1 else 0)"

definition specBadgeIndex :: "bool \<Rightarrow> bool \<Rightarrow> bool \<Rightarrow> nat" where
  "specBadgeIndex mutedFlag activeFlag selectedFlag =
     2 * flagValue mutedFlag + 2 * flagValue activeFlag + flagValue selectedFlag"

definition badgeBg :: "UnreadBadgeStyle \<Rightarrow> color" where
  "badgeBg st =
     (if st_sizeId st = ReactionInDialogs
      then reactionBg ! badgeIndex st
      else bg ! badgeIndex st)"

subsection \<open>Drawing events\<close>

datatype userpic =
    SavedMessagesUserpic | RepliesMessagesUserpic | PeerUserpic bool
  | HiddenSenderUserpic | EntryUserpic

datatype chat_icon = ChatIcon | ChannelIcon | BotIcon

datatype send_icon = SendingIcon | SentIcon | ReceivedIcon

datatype badge_icon = UnreadMentionIcon | UnreadReactionIcon

datatype promo_label = ProxySponsor | PsaDefault | PsaCustom string

datatype cache_text = PromotionMessageText | OccupiedText | DraftPreviewText

datatype palette = DefaultPalette | TakenPalette | DraftPalette

datatype name_kind =
    SavedMessagesName | RepliesMessagesName | FromName | HiddenSenderName | ChatListName

text \<open>
  The arms of the trailing-line chain of \<^verbatim>\<open>PaintRow\<close> (the \<^verbatim>\<open>if\<close> /
  \<^verbatim>\<open>else if\<close> chain that starts at
  \<^verbatim>\<open>if (promoted && !history->topPromotionMessage().isEmpty())\<close>), in its order.
\<close>

datatype trailing =
    PromotionBanner | DraftOrOccupied | TypingOrBlank | LastMessagePreview
  | NothingButPinnedIcon

text \<open>
  One event per call that draws.  \<open>PeerUserpic b\<close>: \<open>b\<close> tells whether the history was
  passed for the online dot.  \<open>CallPaintItem l w\<close> and \<open>CallPaintCounter\<close> are the calls
  of the two callbacks \<^verbatim>\<open>PaintRow\<close> is instantiated with.  \<open>Trailing r\<close> is not a draw
  call: it records that control entered arm \<open>r\<close> of the trailing-line chain.
  \<open>SendAction\<close> is a call of \<^verbatim>\<open>sendActionPainter()->paint\<close> that returned true (the
  typing animation was painted).  \<open>NullThreadDeref\<close> is a use of \<^verbatim>\<open>thread->\<close> with a
  null thread, after which nothing is defined.
\<close>

datatype event =
    FillRect variant
  | PaintRipple
  | PaintUserpic userpic
  | CallPaintCounter
  | CallPaintItem int int
  | RowTopRight promo_label variant
  | RowDate "int option" variant
  | ChatTypeIconPaint chat_icon variant
  | Trailing trailing
  | SetCacheText cache_text
  | DrawCache palette variant
  | PinnedIcon variant
  | SendAction
  | SendStateIcon send_icon variant
  | PeerBadge variant
  | NameText name_kind variant
  | BadgePixmapLeft UnreadBadgeSize nat
  | BadgeBar color int
  | BadgePixmapRight UnreadBadgeSize nat
  | BadgeText string variant
  | BadgeIcon badge_icon variant
  | ListEntryText variant
  | PrepareItemView
  | ItemViewPaint
  | NullThreadDeref

subsection \<open>Painting a badge\<close>

text \<open>
  \<^verbatim>\<open>PaintUnreadBadge(p, rect, st)\<close>, for a rectangle of the given width and height.
  \<^verbatim>\<open>Assert(rect.height() == st.size)\<close> aborts: the result is \<open>None\<close>.  The pixmaps
  come from the cache slot \<^verbatim>\<open>sizes[sizeId].left[index]\<close> / \<^verbatim>\<open>right[index]\<close>, built on
  first use from the colour \<open>badgeBg\<close>; the events name the slot.  C++ integer division
  truncates (\<open>sdiv\<close>).
\<close>

definition PaintUnreadBadgeRect :: "int \<times> int \<Rightarrow> UnreadBadgeStyle \<Rightarrow> event list option" where
  "PaintUnreadBadgeRect rect st =
     (if snd rect \<noteq> st_size st then None
      else
        (let index = badgeIndex st;
             sizehalf = st_size st sdiv 2;
             bar = fst rect - 2 * sizehalf
         in Some ([BadgePixmapLeft (st_sizeId st) index]
                  @ (if bar \<noteq> 0 then [BadgeBar (badgeBg st) bar] else [])
                  @ [BadgePixmapRight (st_sizeId st) index])))"

text \<open>
  \<^verbatim>\<open>PaintUnreadBadge(p, unreadCount, x, y, st, allowDigits)\<close>: the events and the size
  of the returned badge rectangle.  The rectangle is built with the height \<open>st_size\<close>,
  so the assertion of the inner call holds (lemma \<open>PaintUnreadBadgeRect_asserted\<close>) and
  the case \<open>None\<close> is never taken.
\<close>

definition PaintUnreadBadge ::
  "string \<Rightarrow> UnreadBadgeStyle \<Rightarrow> int \<Rightarrow> event list \<times> (int \<times> int)" where
  "PaintUnreadBadge unreadCount st allowDigits =
     (let text = ComputeUnreadBadgeText unreadCount allowDigits;
          unreadRectHeight = st_size st;
          unreadWidth = st_font st text;
          unreadRectWidth = max (unreadWidth + 2 * st_padding st) unreadRectHeight;
          badge = (unreadRectWidth, unreadRectHeight)
      in (case PaintUnreadBadgeRect badge st of
            None \<Rightarrow> ([], badge)
          | Some evs \<Rightarrow>
              (evs @ [BadgeText text (variantOf (st_active st) (st_selected st))], badge)))"

text \<open>\<^verbatim>\<open>QString::number\<close> of an integer: its decimal digits.\<close>

definition digitChar :: "nat \<Rightarrow> char" where
  "digitChar d = ''0123456789'' ! d"

function decimal :: "nat \<Rightarrow> string" where
  "decimal n = (if n < 10 then [digitChar n] else decimal (n div 10) @ [digitChar (n mod 10)])"
  by pat_completeness auto
termination
  by (relation "measure (\<lambda>n. n)") auto

declare decimal.simps [simp del]

definition QString_number :: "int \<Rightarrow> string" where
  "QString_number i = (if i < 0 then CHR ''-'' # decimal (nat (- i)) else decimal (nat i))"

subsection \<open>The paint context and the data a row reads\<close>

text \<open>
  \<^verbatim>\<open>PaintContext\<close>: \<open>ctx_nameLeft\<close> is \<^verbatim>\<open>context.st->nameLeft\<close>, \<open>ctx_paddingRight\<close>
  is \<^verbatim>\<open>context.st->padding.right()\<close>; \<open>ctx_filter\<close> is the filter id, zero for none.
\<close>

record PaintContext =
  ctx_width :: int
  ctx_nameLeft :: int
  ctx_paddingRight :: int
  ctx_active :: bool
  ctx_selected :: bool
  ctx_narrow :: bool
  ctx_search :: bool
  ctx_filter :: int

record Peer =
  p_isChat :: bool
  p_isMegagroup :: bool
  p_isChannel :: bool
  p_isUser :: bool
  p_isBot :: bool
  p_isSupport :: bool
  p_isRepliesChat :: bool
  p_isSelf :: bool

record Draft =
  d_saveRequestId :: int
  d_date :: int

text \<open>\<open>i_unread\<close> is \<^verbatim>\<open>item->unread(thread)\<close> for the thread of the row.\<close>

record HistoryItem =
  i_isEmpty :: bool
  i_needCheck :: bool
  i_isSending :: bool
  i_hasFailed :: bool
  i_unread :: bool
  i_isUnreadMention :: bool
  i_date :: int

text \<open>
  A \<^verbatim>\<open>Data::Thread\<close>: \<open>t_peerIsUser\<close> and \<open>t_onlineTill\<close> are read from the peer of
  \<^verbatim>\<open>owningHistory()\<close>; \<open>t_sendActionPaints\<close> is what \<^verbatim>\<open>sendActionPainter()->paint\<close>
  returns; \<open>t_cloudDraft\<close> is \<^verbatim>\<open>owningHistory()->cloudDraft(topicRootId())\<close> and
  \<open>t_cloudDraftIsNull\<close> what \<^verbatim>\<open>Data::DraftIsNull\<close> answers for it; \<open>t_viewPrepared\<close> is
  \<^verbatim>\<open>lastItemDialogsView().prepared(item)\<close>.
\<close>

record Thread =
  t_peerIsUser :: bool
  t_onlineTill :: int
  t_sendActionPaints :: bool
  t_cloudDraftTextCacheEmpty :: bool
  t_unreadMentionsHas :: bool
  t_unreadReactionsHas :: bool
  t_cloudDraft :: "Draft option"
  t_cloudDraftIsNull :: bool
  t_viewPrepared :: bool

text \<open>
  A \<^verbatim>\<open>History\<close>: \<open>h_customBadge\<close> is
  \<^verbatim>\<open>Lang::GetNonDefaultValue(kPsaBadgePrefix + type.toUtf8())\<close>.
\<close>

record History =
  h_useTopPromotion :: bool
  h_topPromotionType :: string
  h_topPromotionMessage :: string
  h_customBadge :: string
  h_cloudDraftTextCacheEmpty :: bool
  h_peer :: Peer
  h_migrateTo :: "Peer option"

text \<open>
  A \<^verbatim>\<open>Dialogs::Entry\<close>: \<open>e_supportMode\<close> is \<^verbatim>\<open>session().supportMode()\<close>,
  \<open>e_isOccupiedBySomeone\<close> is \<^verbatim>\<open>session().supportHelper().isOccupiedBySomeone(history)\<close>
  for the history of the row, \<open>e_isPinnedDialog\<close> takes the filter id, \<open>e_folder\<close> tells
  whether \<^verbatim>\<open>folder()\<close> is non-null.
\<close>

record Entry =
  e_supportMode :: bool
  e_isOccupiedBySomeone :: bool
  e_isPinnedDialog :: "int \<Rightarrow> bool"
  e_fixedOnTopIndex :: int
  e_chatListUnreadCount :: int
  e_chatListUnreadMark :: bool
  e_chatListMutedBadge :: bool
  e_chatListMessage :: "HistoryItem option"
  e_folder :: bool

text \<open>
  The arguments of \<^verbatim>\<open>PaintRow\<close>: \<open>a_history\<close> and \<open>a_thread\<close> are \<^verbatim>\<open>chat.history()\<close>
  and \<^verbatim>\<open>chat.thread()\<close>; the three flags are the bits of \<^verbatim>\<open>flags\<close>;
  \<open>a_hiddenSenderInfo\<close> tells whether the pointer is non-null; \<open>a_date\<close> is \<open>None\<close> for a
  null \<^verbatim>\<open>QDateTime\<close>.
\<close>

record RowArgs =
  a_entry :: Entry
  a_history :: "History option"
  a_thread :: "Thread option"
  a_from :: "Peer option"
  a_hiddenSenderInfo :: bool
  a_item :: "HistoryItem option"
  a_draft :: "Draft option"
  a_date :: "int option"
  a_context :: PaintContext
  a_savedMessages :: bool
  a_repliesMessages :: bool
  a_allowUserOnline :: bool


subsection \<open>Counters: the narrow overlay and the wide strip\<close>

text \<open>
  \<^verbatim>\<open>PaintNarrowCounter\<close>.  The counter badge is painted with \<open>allowDigits\<close> 1 or 3.
  The mention or reaction badge is painted without that argument, as are the badges of
  \<^verbatim>\<open>PaintWideCounter\<close>: the declaration in \<^verbatim>\<open>dialogs_layout.h\<close> gives it the default 0,
  which leaves the text as it is.
\<close>

definition PaintNarrowCounter ::
  "StyleConsts \<Rightarrow> PaintContext \<Rightarrow> bool \<Rightarrow> bool \<Rightarrow> bool \<Rightarrow> bool \<Rightarrow> int \<Rightarrow> bool \<Rightarrow> bool
     \<Rightarrow> event list" where
  "PaintNarrowCounter S context displayUnreadCounter displayUnreadMark
       displayMentionBadge displayReactionBadge unreadCount unreadMuted
       mentionOrReactionMuted =
     (if displayUnreadCounter \<or> displayUnreadMark
      then
        (let counter = (if unreadCount > 0 then QString_number unreadCount else []);
             allowDigits = (if displayMentionBadge \<or> displayReactionBadge then 1 else 3);
             st = (UnreadBadgeStyle_init S)
                    \<lparr> st_active := ctx_active context, st_selected := ctx_selected context,
                      st_muted := unreadMuted \<rparr>
         in fst (PaintUnreadBadge counter st allowDigits))
      else [])
     @
     (if displayMentionBadge \<or> displayReactionBadge
      then
        (let st = (UnreadBadgeStyle_init S)
                    \<lparr> st_sizeId := (if displayMentionBadge then Dialogs else ReactionInDialogs),
                      st_active := ctx_active context, st_selected := ctx_selected context,
                      st_muted := mentionOrReactionMuted, st_padding := 0, st_textTop := 0 \<rparr>
         in fst (PaintUnreadBadge [] st 0)
            @ [BadgeIcon (if displayMentionBadge then UnreadMentionIcon else UnreadReactionIcon)
                 (variantOf (st_active st) (st_selected st))])
      else [])"

text \<open>
  \<^verbatim>\<open>PaintWideCounter\<close>: the events and the returned \<open>availableWidth\<close>.  The first
  component of \<open>wideFirst\<close> is what the \<^verbatim>\<open>if\<close> / \<^verbatim>\<open>else if\<close> on counter, mark and
  pinned icon paints, the second the width left after it.
\<close>

definition wideFirst ::
  "StyleConsts \<Rightarrow> PaintContext \<Rightarrow> int \<Rightarrow> bool \<Rightarrow> bool \<Rightarrow> bool \<Rightarrow> int \<Rightarrow> bool
     \<Rightarrow> event list \<times> int" where
  "wideFirst S context availableWidth displayUnreadCounter displayUnreadMark
       displayPinnedIcon unreadCount unreadMuted =
     (if displayUnreadCounter \<or> displayUnreadMark
      then
        (let counter = (if unreadCount > 0 then QString_number unreadCount else []);
             st = (UnreadBadgeStyle_init S)
                    \<lparr> st_active := ctx_active context, st_selected := ctx_selected context,
                      st_muted := unreadMuted \<rparr>;
             painted = PaintUnreadBadge counter st 0
         in (fst painted, availableWidth - (fst (snd painted) + st_padding st)))
      else if displayPinnedIcon
      then
        (let v = variantOf (ctx_active context) (ctx_selected context)
         in ([PinnedIcon v],
             availableWidth - (dialogsPinnedIconWidth S v + dialogsUnreadPadding S)))
      else ([], availableWidth))"

definition PaintWideCounter ::
  "StyleConsts \<Rightarrow> PaintContext \<Rightarrow> int \<Rightarrow> bool \<Rightarrow> bool \<Rightarrow> bool \<Rightarrow> bool \<Rightarrow> bool \<Rightarrow> int
     \<Rightarrow> bool \<Rightarrow> bool \<Rightarrow> event list \<times> int" where
  "PaintWideCounter S context availableWidth displayUnreadCounter displayUnreadMark
       displayMentionBadge displayReactionBadge displayPinnedIcon unreadCount unreadMuted
       mentionOrReactionMuted =
     (let first = wideFirst S context availableWidth displayUnreadCounter
                    displayUnreadMark displayPinnedIcon unreadCount unreadMuted
      in if displayMentionBadge \<or> displayReactionBadge
         then
           (let st = (UnreadBadgeStyle_init S)
                       \<lparr> st_sizeId := (if displayMentionBadge then Dialogs else ReactionInDialogs),
                         st_active := ctx_active context, st_selected := ctx_selected context,
                         st_muted := mentionOrReactionMuted, st_padding := 0, st_textTop := 0 \<rparr>;
                painted = PaintUnreadBadge [] st 0
            in (fst first @ fst painted
                  @ [BadgeIcon
                       (if displayMentionBadge then UnreadMentionIcon else UnreadReactionIcon)
                       (variantOf (st_active st) (st_selected st))],
                snd first - (fst (snd painted) + st_padding st + dialogsUnreadPadding S)))
         else first)"

text \<open>
  \<^verbatim>\<open>PaintListEntryText\<close> returns at once for an empty rectangle (\<^verbatim>\<open>QRect::isEmpty\<close>:
  width or height not positive).
\<close>

definition PaintListEntryText :: "PaintContext \<Rightarrow> int \<times> int \<Rightarrow> event list" where
  "PaintListEntryText context rect =
     (if fst rect \<le> 0 \<or> snd rect \<le> 0 then []
      else [ListEntryText (variantOf (ctx_active context) (ctx_selected context))])"

subsection \<open>PaintRow\<close>

definition ShowUserBotIcon :: "Peer \<Rightarrow> bool" where
  "ShowUserBotIcon user = (p_isBot user \<and> \<not> p_isSupport user \<and> \<not> p_isRepliesChat user)"

definition ShowSendActionInDialogs :: "Thread option \<Rightarrow> bool" where
  "ShowSendActionInDialogs thread =
     (case thread of None \<Rightarrow> False
      | Some t \<Rightarrow> \<not> t_peerIsUser t \<or> t_onlineTill t > 0)"

text \<open>
  \<^verbatim>\<open>ShowSendActionInDialogs(thread) && thread->sendActionPainter()->paint(...)\<close>: the
  typing animation was painted.
\<close>

definition sendActionPainted :: "Thread option \<Rightarrow> bool" where
  "sendActionPainted thread =
     (ShowSendActionInDialogs thread
      \<and> (case thread of None \<Rightarrow> False | Some t \<Rightarrow> t_sendActionPaints t))"

definition ChatTypeIcon :: "Peer \<Rightarrow> chat_icon option" where
  "ChatTypeIcon peer =
     (if p_isChat peer \<or> p_isMegagroup peer then Some ChatIcon
      else if p_isChannel peer then Some ChannelIcon
      else if p_isUser peer \<and> ShowUserBotIcon peer then Some BotIcon
      else None)"

text \<open>
  The test the source repeats before every pinned icon:
  \<^verbatim>\<open>entry->isPinnedDialog(context.filter) && (context.filter || !entry->fixedOnTopIndex())\<close>.
\<close>

definition pinnedDialogShown :: "Entry \<Rightarrow> PaintContext \<Rightarrow> bool" where
  "pinnedDialogShown entry context =
     (e_isPinnedDialog entry (ctx_filter context)
      \<and> (ctx_filter context \<noteq> 0 \<or> e_fixedOnTopIndex entry = 0))"

definition userpicOf :: "RowArgs \<Rightarrow> userpic" where
  "userpicOf a =
     (if a_savedMessages a then SavedMessagesUserpic
      else if a_repliesMessages a then RepliesMessagesUserpic
      else if a_from a \<noteq> None then PeerUserpic (a_allowUserOnline a \<and> a_history a \<noteq> None)
      else if a_hiddenSenderInfo a then HiddenSenderUserpic
      else EntryUserpic)"

text \<open>\<^verbatim>\<open>(history && history->useTopPromotion()) && !context.search\<close>.\<close>

definition promoted :: "RowArgs \<Rightarrow> bool" where
  "promoted a =
     ((case a_history a of None \<Rightarrow> False | Some h \<Rightarrow> h_useTopPromotion h)
      \<and> \<not> ctx_search (a_context a))"

definition promotionLabel :: "History \<Rightarrow> promo_label" where
  "promotionLabel h =
     (let type = h_topPromotionType h;
          custom = (if type = [] then [] else h_customBadge h)
      in if type = [] then ProxySponsor
         else if custom = [] then PsaDefault
         else PsaCustom custom)"

text \<open>The promotion label, or else the chat type icon left of the name.\<close>

definition cornerEvents :: "RowArgs \<Rightarrow> event list" where
  "cornerEvents a =
     (let v = variantOf (ctx_active (a_context a)) (ctx_selected (a_context a))
      in if promoted a
         then (case a_history a of None \<Rightarrow> []
               | Some h \<Rightarrow> [RowTopRight (promotionLabel h) v])
         else (case a_from a of None \<Rightarrow> []
               | Some peer \<Rightarrow>
                   (case ChatTypeIcon peer of None \<Rightarrow> []
                    | Some icon \<Rightarrow> [ChatTypeIconPaint icon v])))"

definition pinnedIconEvents :: "RowArgs \<Rightarrow> event list" where
  "pinnedIconEvents a =
     (if pinnedDialogShown (a_entry a) (a_context a)
      then [PinnedIcon (variantOf (ctx_active (a_context a)) (ctx_selected (a_context a)))]
      else [])"

text \<open>
  The trailing-line chain.  \<open>draft\<close> is the local variable of \<^verbatim>\<open>PaintRow\<close>, already
  reset in support mode.  The result holds the events and whether the chain ran to its
  end; it does not when the draft arm reaches \<^verbatim>\<open>thread->cloudDraftTextCache()\<close> with a
  null thread.  The last arm, \<^verbatim>\<open>else if (entry->isPinnedDialog(...) && ...)\<close>, is
  entered for a pinned row only: there is no final \<^verbatim>\<open>else\<close>, and an unpinned row with
  an empty message enters no arm.
\<close>

definition trailingLine :: "RowArgs \<Rightarrow> Draft option \<Rightarrow> event list \<times> bool" where
  "trailingLine a draft =
     (let context = a_context a;
          v = variantOf (ctx_active context) (ctx_selected context);
          supportMode = e_supportMode (a_entry a);
          nameleft = ctx_nameLeft context;
          namewidth = ctx_width context - nameleft - ctx_paddingRight context
      in
      if promoted a
         \<and> (case a_history a of None \<Rightarrow> False | Some h \<Rightarrow> h_topPromotionMessage h \<noteq> [])
      then
        (Trailing PromotionBanner
           # (case a_history a of None \<Rightarrow> []
              | Some h \<Rightarrow>
                  (if h_cloudDraftTextCacheEmpty h then [SetCacheText PromotionMessageText]
                   else []))
           @ [DrawCache DefaultPalette v],
         True)
      else if draft \<noteq> None \<or> (supportMode \<and> e_isOccupiedBySomeone (a_entry a))
      then
        (let before = Trailing DraftOrOccupied
               # (if \<not> promoted a then [RowDate (a_date a) v] else [])
               @ pinnedIconEvents a
         in if sendActionPainted (a_thread a) then (before @ [SendAction], True)
            else
              (case a_thread a of
                 None \<Rightarrow> (before @ [NullThreadDeref], False)
               | Some t \<Rightarrow>
                   (before
                      @ (if t_cloudDraftTextCacheEmpty t
                         then [SetCacheText (if supportMode then OccupiedText
                                             else DraftPreviewText)]
                         else [])
                      @ [DrawCache (if supportMode then TakenPalette else DraftPalette) v],
                    True)))
      else
        (case a_item a of
           None \<Rightarrow>
             (Trailing TypingOrBlank
                # pinnedIconEvents a
                @ (if sendActionPainted (a_thread a) then [SendAction] else []),
              True)
         | Some item \<Rightarrow>
             if \<not> i_isEmpty item
             then
               (Trailing LastMessagePreview
                  # (if a_thread a \<noteq> None \<and> \<not> promoted a then [RowDate (a_date a) v]
                     else [])
                  @ [CallPaintItem nameleft namewidth],
                True)
             else if pinnedDialogShown (a_entry a) context
             then ([Trailing NothingButPinnedIcon, PinnedIcon v], True)
             else ([], True)))"

text \<open>The lambda \<^verbatim>\<open>sendStateIcon\<close> of \<^verbatim>\<open>PaintRow\<close>; \<open>None\<close> is \<^verbatim>\<open>nullptr\<close>.\<close>

definition sendStateIcon ::
  "Thread option \<Rightarrow> Draft option \<Rightarrow> HistoryItem option \<Rightarrow> PaintContext
     \<Rightarrow> (send_icon \<times> variant) option" where
  "sendStateIcon thread draft item context =
     (let v = variantOf (ctx_active context) (ctx_selected context)
      in case thread of
           None \<Rightarrow> None
         | Some t \<Rightarrow>
             (case draft of
                Some d \<Rightarrow> (if d_saveRequestId d \<noteq> 0 then Some (SendingIcon, v) else None)
              | None \<Rightarrow>
                  (case item of
                     None \<Rightarrow> None
                   | Some i \<Rightarrow>
                       if \<not> i_isEmpty i \<and> i_needCheck i
                       then
                         (if \<not> i_isSending i \<and> \<not> i_hasFailed i
                          then (if i_unread i then Some (SentIcon, v)
                                else Some (ReceivedIcon, v))
                          else Some (SendingIcon, v))
                       else None)))"

definition nameEvents :: "RowArgs \<Rightarrow> event list" where
  "nameEvents a =
     (let context = a_context a;
          v = variantOf (ctx_active context) (ctx_selected context)
      in if a_savedMessages a \<or> a_repliesMessages a
         then [NameText (if a_savedMessages a then SavedMessagesName
                         else RepliesMessagesName) v]
         else if a_from a \<noteq> None
         then (if a_history a \<noteq> None \<and> \<not> ctx_search context then [PeerBadge v] else [])
              @ [NameText FromName v]
         else if a_hiddenSenderInfo a then [NameText HiddenSenderName v]
         else [NameText ChatListName v])"

text \<open>
  The first statement of \<^verbatim>\<open>PaintRow\<close>:
  \<^verbatim>\<open>if (supportMode) { draft = nullptr; }\<close>.  \<open>localDraft\<close> is the variable \<^verbatim>\<open>draft\<close>
  from there on.
\<close>

definition localDraft :: "RowArgs \<Rightarrow> Draft option" where
  "localDraft a = (if e_supportMode (a_entry a) then None else a_draft a)"

definition PaintRow :: "RowArgs \<Rightarrow> event list" where
  "PaintRow a =
     (let context = a_context a;
          draft = localDraft a;
          v = variantOf (ctx_active context) (ctx_selected context)
      in [FillRect v, PaintRipple, PaintUserpic (userpicOf a)]
         @ (if ctx_width context \<le> ctx_nameLeft context
            then
              (if draft = None
                  \<and> (case a_item a of None \<Rightarrow> False | Some i \<Rightarrow> \<not> i_isEmpty i)
               then [CallPaintCounter] else [])
            else
              cornerEvents a
              @ (case trailingLine a draft of
                   (evs, finished) \<Rightarrow>
                     evs
                     @ (if finished
                        then (case sendStateIcon (a_thread a) draft (a_item a) context of
                                None \<Rightarrow> []
                              | Some (icon, iv) \<Rightarrow> [SendStateIcon icon iv])
                             @ nameEvents a
                        else []))))"

text \<open>The arms of the trailing-line chain a list of events went through.\<close>

definition trailingOf :: "event \<Rightarrow> trailing list" where
  "trailingOf e = (case e of Trailing r \<Rightarrow> [r] | _ \<Rightarrow> [])"

definition trailingRenderers :: "event list \<Rightarrow> trailing list" where
  "trailingRenderers evs = concat (map trailingOf evs)"

subsection \<open>RowPainter::Paint for a row of the list\<close>

text \<open>
  A \<^verbatim>\<open>Row\<close>: its entry, \<^verbatim>\<open>row->history()\<close>, \<^verbatim>\<open>row->thread()\<close> and whether
  \<^verbatim>\<open>row->folder()\<close> is non-null.  \<^verbatim>\<open>row->key()\<close>, passed to \<^verbatim>\<open>PaintRow\<close> as
  \<^verbatim>\<open>chat\<close>, has the same history and thread.
\<close>

record Row =
  r_entry :: Entry
  r_history :: "History option"
  r_thread :: "Thread option"
  r_folder :: bool

definition cloudDraft :: "Row \<Rightarrow> Draft option" where
  "cloudDraft row =
     (let item = e_chatListMessage (r_entry row);
          unreadCount = e_chatListUnreadCount (r_entry row);
          unreadMark = e_chatListUnreadMark (r_entry row)
      in case r_thread row of
           None \<Rightarrow> None
         | Some t \<Rightarrow>
             if item = None \<or> (unreadCount = 0 \<and> \<not> unreadMark)
             then (if \<not> t_cloudDraftIsNull t then t_cloudDraft t else None)
             else None)"

definition displayDate :: "Row \<Rightarrow> int option" where
  "displayDate row =
     (case e_chatListMessage (r_entry row) of
        Some item \<Rightarrow>
          (case cloudDraft row of
             Some d \<Rightarrow> (if i_date item > d_date d then Some (i_date item) else Some (d_date d))
           | None \<Rightarrow> Some (i_date item))
      | None \<Rightarrow>
          (case cloudDraft row of Some d \<Rightarrow> Some (d_date d) | None \<Rightarrow> None))"

definition displayMentionBadge :: "Row \<Rightarrow> bool" where
  "displayMentionBadge row =
     (case r_thread row of None \<Rightarrow> False | Some t \<Rightarrow> t_unreadMentionsHas t)"

definition displayReactionBadge :: "Row \<Rightarrow> bool" where
  "displayReactionBadge row =
     (\<not> displayMentionBadge row
      \<and> (case r_thread row of None \<Rightarrow> False | Some t \<Rightarrow> t_unreadReactionsHas t))"

definition mentionOrReactionMuted :: "Row \<Rightarrow> bool" where
  "mentionOrReactionMuted row =
     (e_folder (r_entry row)
      \<or> (\<not> displayMentionBadge row \<and> e_chatListMutedBadge (r_entry row)))"

definition displayUnreadCounter :: "Row \<Rightarrow> bool" where
  "displayUnreadCounter row =
     (if displayMentionBadge row
         \<and> e_chatListUnreadCount (r_entry row) = 1
         \<and> (case e_chatListMessage (r_entry row) of
               None \<Rightarrow> False | Some item \<Rightarrow> i_isUnreadMention item)
      then False
      else e_chatListUnreadCount (r_entry row) > 0)"

definition displayUnreadMark :: "Row \<Rightarrow> bool" where
  "displayUnreadMark row =
     (\<not> displayUnreadCounter row
      \<and> \<not> displayMentionBadge row
      \<and> r_history row \<noteq> None
      \<and> e_chatListUnreadMark (r_entry row))"

definition displayPinnedIcon :: "Row \<Rightarrow> PaintContext \<Rightarrow> bool" where
  "displayPinnedIcon row context =
     (\<not> displayUnreadCounter row
      \<and> \<not> displayMentionBadge row
      \<and> \<not> displayReactionBadge row
      \<and> \<not> displayUnreadMark row
      \<and> pinnedDialogShown (r_entry row) context)"

definition rowFrom :: "Row \<Rightarrow> Peer option" where
  "rowFrom row =
     (case r_history row of
        None \<Rightarrow> None
      | Some h \<Rightarrow> (case h_migrateTo h of Some m \<Rightarrow> Some m | None \<Rightarrow> Some (h_peer h)))"

definition allowUserOnline :: "Row \<Rightarrow> PaintContext \<Rightarrow> bool" where
  "allowUserOnline row context =
     (\<not> ctx_narrow context \<or> (\<not> displayUnreadCounter row \<and> \<not> displayUnreadMark row))"

text \<open>The lambda \<^verbatim>\<open>paintItemCallback\<close> of \<^verbatim>\<open>RowPainter::Paint\<close>.\<close>

definition paintItemCallback ::
  "StyleConsts \<Rightarrow> Row \<Rightarrow> PaintContext \<Rightarrow> int \<Rightarrow> int \<Rightarrow> event list" where
  "paintItemCallback S row context nameleft namewidth =
     (let wide = PaintWideCounter S context namewidth
                   (displayUnreadCounter row) (displayUnreadMark row)
                   (displayMentionBadge row) (displayReactionBadge row)
                   (displayPinnedIcon row context)
                   (e_chatListUnreadCount (r_entry row))
                   (e_chatListMutedBadge (r_entry row))
                   (mentionOrReactionMuted row);
          rect = (snd wide, dialogsTextFontHeight S);
          actionWasPainted = sendActionPainted (r_thread row)
      in fst wide
         @ (if actionWasPainted then [SendAction] else [])
         @ (if r_folder row then PaintListEntryText context rect
            else
              (case r_thread row of
                 None \<Rightarrow> []
               | Some t \<Rightarrow>
                   if actionWasPainted then []
                   else (if \<not> t_viewPrepared t then [PrepareItemView] else [])
                        @ [ItemViewPaint])))"

text \<open>The lambda \<^verbatim>\<open>paintCounterCallback\<close> of \<^verbatim>\<open>RowPainter::Paint\<close>.\<close>

definition paintCounterCallback :: "StyleConsts \<Rightarrow> Row \<Rightarrow> PaintContext \<Rightarrow> event list" where
  "paintCounterCallback S row context =
     PaintNarrowCounter S context
       (displayUnreadCounter row) (displayUnreadMark row)
       (displayMentionBadge row) (displayReactionBadge row)
       (e_chatListUnreadCount (r_entry row))
       (e_chatListMutedBadge (r_entry row))
       (mentionOrReactionMuted row)"

text \<open>The arguments \<^verbatim>\<open>RowPainter::Paint\<close> hands to \<^verbatim>\<open>PaintRow\<close>.\<close>

definition rowArgs :: "Row \<Rightarrow> PaintContext \<Rightarrow> RowArgs" where
  "rowArgs row context =
     \<lparr> a_entry = r_entry row,
       a_history = r_history row,
       a_thread = r_thread row,
       a_from = rowFrom row,
       a_hiddenSenderInfo = False,
       a_item = e_chatListMessage (r_entry row),
       a_draft = cloudDraft row,
       a_date = displayDate row,
       a_context = context,
       a_savedMessages =
         (case r_history row of None \<Rightarrow> False | Some h \<Rightarrow> p_isSelf (h_peer h)),
       a_repliesMessages =
         (case r_history row of None \<Rightarrow> False | Some h \<Rightarrow> p_isRepliesChat (h_peer h)),
       a_allowUserOnline = allowUserOnline row context \<rparr>"

text \<open>Every call of a callback is replaced by the events the callback issues.\<close>

definition runCallback ::
  "(int \<Rightarrow> int \<Rightarrow> event list) \<Rightarrow> event list \<Rightarrow> event \<Rightarrow> event list" where
  "runCallback paintItem paintCounter e =
     (case e of
        CallPaintItem nameleft namewidth \<Rightarrow> paintItem nameleft namewidth
      | CallPaintCounter \<Rightarrow> paintCounter
      | _ \<Rightarrow> [e])"

definition RowPainter_Paint :: "StyleConsts \<Rightarrow> Row \<Rightarrow> PaintContext \<Rightarrow> event list" where
  "RowPainter_Paint S row context =
     concat (map (runCallback (paintItemCallback S row context)
                              (paintCounterCallback S row context))
                 (PaintRow (rowArgs row context)))"


subsection \<open>Concrete styles and rows\<close>

text \<open>
  A proportional font: a full stop is 3 wide, every other character 7; and a font in
  which every character is 7 wide.
\<close>

definition narrowDotFont :: font where
  "narrowDotFont s = sum_list (map (\<lambda>c. if c = CHR ''.'' then 3 else 7) s)"

definition fixedFont :: font where
  "fixedFont s = 7 * int (length s)"

definition exampleConsts :: StyleConsts where
  "exampleConsts =
     \<lparr> dialogsUnreadHeight = 19, dialogsUnreadPadding = 5, dialogsUnreadFont = narrowDotFont,
       dialogsPinnedIconWidth = (\<lambda>v. 16), dialogsTextFontHeight = 17 \<rparr>"

definition exampleStyle :: UnreadBadgeStyle where
  "exampleStyle = UnreadBadgeStyle_init exampleConsts"

definition mutedStyle :: UnreadBadgeStyle where
  "mutedStyle = exampleStyle \<lparr> st_muted := True \<rparr>"

definition activeSelectedStyle :: UnreadBadgeStyle where
  "activeSelectedStyle = exampleStyle \<lparr> st_active := True, st_selected := True \<rparr>"

text \<open>A font whose measured width never shrinks when a text gets longer.\<close>

definition lengthMonotone :: "font \<Rightarrow> bool" where
  "lengthMonotone f = (\<forall>s t. length s \<le> length t \<longrightarrow> f s \<le> f t)"

definition fixedStyle :: UnreadBadgeStyle where
  "fixedStyle = exampleStyle \<lparr> st_font := fixedFont \<rparr>"

subsection \<open>The row state the trailing line depends on\<close>

text \<open>
  The state of a row as the specification names it: promoted with a banner text, a
  draft or a chat occupied in support mode, a message, an empty message, a pinned row;
  and the renderer the specification assigns to a state, in its order of priority
  (none for an unpinned row with an empty message).
\<close>

definition promotedWithBanner :: "RowArgs \<Rightarrow> bool" where
  "promotedWithBanner a =
     (promoted a
      \<and> (case a_history a of None \<Rightarrow> False | Some h \<Rightarrow> h_topPromotionMessage h \<noteq> []))"

definition draftOrOccupied :: "RowArgs \<Rightarrow> bool" where
  "draftOrOccupied a =
     (localDraft a \<noteq> None
      \<or> (e_supportMode (a_entry a) \<and> e_isOccupiedBySomeone (a_entry a)))"

definition itemIsEmpty :: "RowArgs \<Rightarrow> bool" where
  "itemIsEmpty a = (case a_item a of None \<Rightarrow> False | Some i \<Rightarrow> i_isEmpty i)"

definition specTrailing :: "bool \<Rightarrow> bool \<Rightarrow> bool \<Rightarrow> bool \<Rightarrow> bool \<Rightarrow> trailing list" where
  "specTrailing isPromotedWithBanner hasDraftOrOccupied hasItem isItemEmpty isPinned =
     (if isPromotedWithBanner then [PromotionBanner]
      else if hasDraftOrOccupied then [DraftOrOccupied]
      else if \<not> hasItem then [TypingOrBlank]
      else if \<not> isItemEmpty then [LastMessagePreview]
      else if isPinned then [NothingButPinnedIcon]
      else [])"

text \<open>
  What a renderer of the trailing line paints as its content: a cached text (promotion
  message, draft or occupied line), the typing animation, or the item callback.  The
  pinned icon is an adornment next to it.
\<close>

definition isTrailingContent :: "event \<Rightarrow> bool" where
  "isTrailingContent e =
     (case e of
        DrawCache p v \<Rightarrow> True
      | SendAction \<Rightarrow> True
      | CallPaintItem nameleft namewidth \<Rightarrow> True
      | _ \<Rightarrow> False)"

definition trailingContent :: "event list \<Rightarrow> event list" where
  "trailingContent evs = filter isTrailingContent evs"

text \<open>
  \<^verbatim>\<open>PaintRow\<close> calls one of its two callbacks, each of which paints the counters: the
  counter callback in the narrow branch, the item callback in the arm of a non-empty
  message.
\<close>

definition callbackReached :: "RowArgs \<Rightarrow> bool" where
  "callbackReached a =
     (a_item a \<noteq> None \<and> \<not> itemIsEmpty a
      \<and> (if ctx_width (a_context a) \<le> ctx_nameLeft (a_context a)
          then localDraft a = None
          else \<not> promotedWithBanner a \<and> \<not> draftOrOccupied a))"

text \<open>A badge text that shows a count: the text of a painted badge, not empty.\<close>

definition isCounterText :: "event \<Rightarrow> bool" where
  "isCounterText e = (case e of BadgeText t v \<Rightarrow> t \<noteq> [] | _ \<Rightarrow> False)"

text \<open>The events of a badge, and the events a row too narrow for a name may show.\<close>

definition isBadgeEvent :: "event \<Rightarrow> bool" where
  "isBadgeEvent e =
     (case e of
        BadgePixmapLeft sizeId index \<Rightarrow> True
      | BadgeBar c bar \<Rightarrow> True
      | BadgePixmapRight sizeId index \<Rightarrow> True
      | BadgeText text v \<Rightarrow> True
      | BadgeIcon icon v \<Rightarrow> True
      | _ \<Rightarrow> False)"

definition narrowRowEvent :: "event \<Rightarrow> bool" where
  "narrowRowEvent e =
     (case e of
        FillRect v \<Rightarrow> True
      | PaintRipple \<Rightarrow> True
      | PaintUserpic u \<Rightarrow> True
      | _ \<Rightarrow> isBadgeEvent e)"

subsection \<open>Concrete contexts and rows\<close>

definition wideContext :: PaintContext where
  "wideContext =
     \<lparr> ctx_width = 300, ctx_nameLeft = 68, ctx_paddingRight = 10, ctx_active = False,
       ctx_selected = False, ctx_narrow = False, ctx_search = False, ctx_filter = 0 \<rparr>"

definition narrowContext :: PaintContext where
  "narrowContext = wideContext \<lparr> ctx_width := 68, ctx_narrow := True \<rparr>"

definition examplePeer :: Peer where
  "examplePeer =
     \<lparr> p_isChat = False, p_isMegagroup = False, p_isChannel = False, p_isUser = True,
       p_isBot = False, p_isSupport = False, p_isRepliesChat = False, p_isSelf = False \<rparr>"

definition exampleItem :: HistoryItem where
  "exampleItem =
     \<lparr> i_isEmpty = False, i_needCheck = True, i_isSending = False, i_hasFailed = False,
       i_unread = True, i_isUnreadMention = False, i_date = 1000 \<rparr>"

definition exampleDraft :: Draft where
  "exampleDraft = \<lparr> d_saveRequestId = 5, d_date = 2000 \<rparr>"

definition exampleThread :: Thread where
  "exampleThread =
     \<lparr> t_peerIsUser = True, t_onlineTill = 0, t_sendActionPaints = False,
       t_cloudDraftTextCacheEmpty = True, t_unreadMentionsHas = False,
       t_unreadReactionsHas = False, t_cloudDraft = Some exampleDraft,
       t_cloudDraftIsNull = False, t_viewPrepared = False \<rparr>"

definition exampleHistory :: History where
  "exampleHistory =
     \<lparr> h_useTopPromotion = False, h_topPromotionType = [], h_topPromotionMessage = [],
       h_customBadge = [], h_cloudDraftTextCacheEmpty = True, h_peer = examplePeer,
       h_migrateTo = None \<rparr>"

definition exampleEntry :: Entry where
  "exampleEntry =
     \<lparr> e_supportMode = False, e_isOccupiedBySomeone = False, e_isPinnedDialog = (\<lambda>f. False),
       e_fixedOnTopIndex = 0, e_chatListUnreadCount = 3, e_chatListUnreadMark = False,
       e_chatListMutedBadge = False, e_chatListMessage = Some exampleItem,
       e_folder = False \<rparr>"

definition exampleArgs :: RowArgs where
  "exampleArgs =
     \<lparr> a_entry = exampleEntry, a_history = Some exampleHistory,
       a_thread = Some exampleThread, a_from = Some examplePeer, a_hiddenSenderInfo = False,
       a_item = Some exampleItem, a_draft = None, a_date = Some 1000,
       a_context = wideContext, a_savedMessages = False, a_repliesMessages = False,
       a_allowUserOnline = True \<rparr>"

definition draftArgs :: RowArgs where
  "draftArgs = exampleArgs \<lparr> a_draft := Some exampleDraft \<rparr>"

definition narrowArgs :: RowArgs where
  "narrowArgs = exampleArgs \<lparr> a_context := narrowContext \<rparr>"

definition emptyItem :: HistoryItem where
  "emptyItem = exampleItem \<lparr> i_isEmpty := True \<rparr>"

definition emptyItemArgs :: RowArgs where
  "emptyItemArgs = exampleArgs \<lparr> a_item := Some emptyItem \<rparr>"

definition supportArgs :: RowArgs where
  "supportArgs =
     draftArgs \<lparr> a_entry := exampleEntry \<lparr> e_supportMode := True,
                                            e_isOccupiedBySomeone := True \<rparr> \<rparr>"

subsection \<open>Concrete rows of the list\<close>

definition psaHistory :: History where
  "psaHistory =
     exampleHistory \<lparr> h_useTopPromotion := True, h_topPromotionType := ''covid'',
       h_topPromotionMessage := ''Stay at home'' \<rparr>"

definition exampleRow :: Row where
  "exampleRow =
     \<lparr> r_entry = exampleEntry, r_history = Some exampleHistory,
       r_thread = Some exampleThread, r_folder = False \<rparr>"

definition psaRow :: Row where
  "psaRow = exampleRow \<lparr> r_history := Some psaHistory \<rparr>"

definition mentionThread :: Thread where
  "mentionThread = exampleThread \<lparr> t_unreadMentionsHas := True \<rparr>"

definition mentionItem :: HistoryItem where
  "mentionItem = exampleItem \<lparr> i_isUnreadMention := True \<rparr>"

definition mentionRow :: Row where
  "mentionRow =
     exampleRow \<lparr> r_entry := exampleEntry \<lparr> e_chatListUnreadCount := 1,
                                             e_chatListMessage := Some mentionItem \<rparr>,
                  r_thread := Some mentionThread \<rparr>"

definition psaMentionRow :: Row where
  "psaMentionRow = mentionRow \<lparr> r_history := Some psaHistory \<rparr>"

definition pinnedRow :: Row where
  "pinnedRow =
     exampleRow \<lparr> r_entry := exampleEntry \<lparr> e_chatListUnreadCount := 0,
                                             e_isPinnedDialog := (\<lambda>f. True) \<rparr> \<rparr>"

text \<open>
  The state in which \<^verbatim>\<open>RowPainter::Paint\<close> leaves the counter to the mention badge: a
  mention badge, an unread count of one, and the message of the row is the unread
  mention.
\<close>

definition onlyUnreadIsMention :: "Row \<Rightarrow> bool" where
  "onlyUnreadIsMention row =
     (displayMentionBadge row
      \<and> e_chatListUnreadCount (r_entry row) = 1
      \<and> (case e_chatListMessage (r_entry row) of
            None \<Rightarrow> False | Some item \<Rightarrow> i_isUnreadMention item))"

text \<open>The events of the wide strip of a row of the list, as its item callback paints them.\<close>

definition rowWideCounter :: "StyleConsts \<Rightarrow> Row \<Rightarrow> PaintContext \<Rightarrow> int \<Rightarrow> event list" where
  "rowWideCounter S row context namewidth =
     fst (PaintWideCounter S context namewidth
            (displayUnreadCounter row) (displayUnreadMark row)
            (displayMentionBadge row) (displayReactionBadge row)
            (displayPinnedIcon row context)
            (e_chatListUnreadCount (r_entry row))
            (e_chatListMutedBadge (r_entry row))
            (mentionOrReactionMuted row))"

section \<open>Badge text, badge size and badge colour\<close>

lemma lastChars_drop: "lastChars n s = drop (length s - n) s"
  by (simp add: lastChars_def rev_take)

text \<open>
  Claim C3, as amended.  \<^verbatim>\<open>ComputeUnreadBadgeText(s, allowDigits)\<close> returns \<open>s\<close>
  unchanged when \<open>allowDigits \<le> 0\<close> or the length of \<open>s\<close> is at most \<open>allowDigits + 1\<close>, and
  otherwise two full stops followed by the last \<open>allowDigits\<close> characters of \<open>s\<close>:
  \<open>allowDigits = 1\<close> and "523" give "..3", \<open>allowDigits = 3\<close> and "12345" give "..345".
\<close>

theorem ComputeUnreadBadgeText_cases:
  "ComputeUnreadBadgeText s d =
     (if d \<le> 0 \<or> int (length s) \<le> d + 1 then s else ''..'' @ lastChars (nat d) s)
   \<and> ComputeUnreadBadgeText ''523'' 1 = ''..3''
   \<and> ComputeUnreadBadgeText ''12345'' 3 = ''..345''"
proof -
  have "nat (int (length s) - d) = length s - nat d" if "0 < d"
    using that by linarith
  then show ?thesis
    by (auto simp: ComputeUnreadBadgeText_def lastChars_drop)
qed

theorem ComputeUnreadBadgeText_cases_witness:
  "ComputeUnreadBadgeText ''1234'' 3 = ''1234''
   \<and> ComputeUnreadBadgeText ''98765'' 2 = ''..65''
   \<and> ComputeUnreadBadgeText ''98765'' 0 = ''98765''"
  using ComputeUnreadBadgeText_cases [of "''1234''" 3]
    ComputeUnreadBadgeText_cases [of "''98765''" 2]
    ComputeUnreadBadgeText_cases [of "''98765''" 0]
  by (simp add: lastChars_def)

text \<open>
  Claim C3 as stated gives "..2345" for \<open>allowDigits = 3\<close> and "12345": that is four
  digits after the full stops, and not what the function returns.
\<close>

theorem ComputeUnreadBadgeText_12345_counterexample:
  "ComputeUnreadBadgeText ''12345'' 3 = ''..345''
   \<and> ComputeUnreadBadgeText ''12345'' 3 \<noteq> ''..2345''"
  by (simp add: ComputeUnreadBadgeText_def)

text \<open>
  Claim C2, as amended.  The colour index of \<^verbatim>\<open>PaintUnreadBadge\<close> is
  3 \<times> mutedFlag plus 2 for an active badge, else plus 1 for a selected one: active
  beats selected, and muted shifts the index by three whatever the other two flags are.
  The index stays below six and takes each of the six values; it is the index of the
  two cached pixmaps a painted badge is made of.
\<close>

theorem badgeIndex_formula:
  "badgeIndex st
     = 3 * flagValue (st_muted st) + (if st_active st then 2 else flagValue (st_selected st))
   \<and> badgeIndex st < 6
   \<and> range (badgeIndex :: UnreadBadgeStyle \<Rightarrow> nat) = {0..<6}
   \<and> BadgePixmapLeft (st_sizeId st) (badgeIndex st) \<in> set (fst (PaintUnreadBadge c st d))
   \<and> BadgePixmapRight (st_sizeId st) (badgeIndex st) \<in> set (fst (PaintUnreadBadge c st d))"
proof -
  have painted:
    "BadgePixmapLeft (st_sizeId st) (badgeIndex st) \<in> set (fst (PaintUnreadBadge c st d))"
    "BadgePixmapRight (st_sizeId st) (badgeIndex st) \<in> set (fst (PaintUnreadBadge c st d))"
    by (simp_all add: PaintUnreadBadge_def PaintUnreadBadgeRect_def Let_def)
  let ?s = "\<lambda>m a s. exampleStyle \<lparr> st_muted := m, st_active := a, st_selected := s \<rparr>"
  have below: "badgeIndex t < 6" for t :: UnreadBadgeStyle
    by (simp add: badgeIndex_def)
  have "i \<in> range (badgeIndex :: UnreadBadgeStyle \<Rightarrow> nat)" if "i < 6" for i
  proof -
    from that consider "i = 0" | "i = 1" | "i = 2" | "i = 3" | "i = 4" | "i = 5"
      by linarith
    then show ?thesis
    proof cases
      case 1
      then have "i = badgeIndex (?s False False False)" by (simp add: badgeIndex_def)
      then show ?thesis by blast
    next
      case 2
      then have "i = badgeIndex (?s False False True)" by (simp add: badgeIndex_def)
      then show ?thesis by blast
    next
      case 3
      then have "i = badgeIndex (?s False True False)" by (simp add: badgeIndex_def)
      then show ?thesis by blast
    next
      case 4
      then have "i = badgeIndex (?s True False False)" by (simp add: badgeIndex_def)
      then show ?thesis by blast
    next
      case 5
      then have "i = badgeIndex (?s True False True)" by (simp add: badgeIndex_def)
      then show ?thesis by blast
    next
      case 6
      then have "i = badgeIndex (?s True True False)" by (simp add: badgeIndex_def)
      then show ?thesis by blast
    qed
  qed
  with below have "range (badgeIndex :: UnreadBadgeStyle \<Rightarrow> nat) = {0..<6}"
    by auto
  moreover have "badgeIndex st
     = 3 * flagValue (st_muted st) + (if st_active st then 2 else flagValue (st_selected st))"
    by (simp add: badgeIndex_def flagValue_def)
  ultimately show ?thesis
    using below painted by blast
qed

theorem badgeIndex_formula_witness:
  "badgeIndex mutedStyle = 3 \<and> badgeIndex activeSelectedStyle = 2"
  using badgeIndex_formula [of mutedStyle] badgeIndex_formula [of activeSelectedStyle]
  by (simp add: mutedStyle_def activeSelectedStyle_def exampleStyle_def
      UnreadBadgeStyle_init_def flagValue_def)

text \<open>
  Claim C2 as stated: the index is 2 \<times> mutedFlag + 2 \<times> activeFlag + selectedFlag.
  A muted badge that is neither active nor selected has index 3, not 2.
\<close>

theorem badgeIndex_muted_counterexample:
  "badgeIndex mutedStyle = 3
   \<and> specBadgeIndex (st_muted mutedStyle) (st_active mutedStyle) (st_selected mutedStyle) = 2
   \<and> badgeIndex mutedStyle
       \<noteq> specBadgeIndex (st_muted mutedStyle) (st_active mutedStyle) (st_selected mutedStyle)"
  by (simp add: badgeIndex_def specBadgeIndex_def flagValue_def mutedStyle_def
      exampleStyle_def UnreadBadgeStyle_init_def)


text \<open>
  Claim C6, as amended.  \<^verbatim>\<open>CountUnreadBadgeSize\<close> returns width
  max(textWidth + 2 \<times> padding, badgeHeight) and height badgeHeight, where textWidth is
  the width the style's font measures for the badge text.  The width is never smaller
  than the badge height, and it is monotonically non-decreasing in textWidth; it is
  non-decreasing in the length of the badge text for a font whose measured width is.
\<close>

theorem CountUnreadBadgeSize_width:
  "CountUnreadBadgeSize c st d
     = (max (st_font st (ComputeUnreadBadgeText c d) + 2 * st_padding st) (st_size st),
        st_size st)
   \<and> st_size st \<le> fst (CountUnreadBadgeSize c st d)
   \<and> (st_font st (ComputeUnreadBadgeText c d) \<le> st_font st (ComputeUnreadBadgeText c' d')
        \<longrightarrow> fst (CountUnreadBadgeSize c st d) \<le> fst (CountUnreadBadgeSize c' st d'))
   \<and> (lengthMonotone (st_font st)
        \<and> length (ComputeUnreadBadgeText c d) \<le> length (ComputeUnreadBadgeText c' d')
        \<longrightarrow> fst (CountUnreadBadgeSize c st d) \<le> fst (CountUnreadBadgeSize c' st d'))"
proof -
  have width: "fst (CountUnreadBadgeSize c st d) \<le> fst (CountUnreadBadgeSize c' st d')"
    if "st_font st (ComputeUnreadBadgeText c d) \<le> st_font st (ComputeUnreadBadgeText c' d')"
    using that by (auto simp: CountUnreadBadgeSize_def Let_def)
  have "st_font st (ComputeUnreadBadgeText c d) \<le> st_font st (ComputeUnreadBadgeText c' d')"
    if "lengthMonotone (st_font st)"
      and "length (ComputeUnreadBadgeText c d) \<le> length (ComputeUnreadBadgeText c' d')"
    using that by (simp add: lengthMonotone_def)
  with width show ?thesis
    by (auto simp: CountUnreadBadgeSize_def Let_def)
qed

lemma fixedFont_lengthMonotone: "lengthMonotone fixedFont"
  by (simp add: lengthMonotone_def fixedFont_def)

theorem CountUnreadBadgeSize_width_witness:
  "lengthMonotone (st_font fixedStyle)
   \<and> length (ComputeUnreadBadgeText ''7'' 0) \<le> length (ComputeUnreadBadgeText ''1234'' 0)
   \<and> CountUnreadBadgeSize ''7'' fixedStyle 0 = (19, 19)
   \<and> CountUnreadBadgeSize ''1234'' fixedStyle 0 = (38, 19)
   \<and> fst (CountUnreadBadgeSize ''7'' fixedStyle 0)
       \<le> fst (CountUnreadBadgeSize ''1234'' fixedStyle 0)"
  using CountUnreadBadgeSize_width [of "''7''" fixedStyle 0 "''1234''" 0]
    CountUnreadBadgeSize_width [of "''1234''" fixedStyle 0 "''7''" 0]
    fixedFont_lengthMonotone
  by (simp add: fixedStyle_def exampleStyle_def UnreadBadgeStyle_init_def exampleConsts_def
      ComputeUnreadBadgeText_def fixedFont_def)

text \<open>
  Claim C6 as stated has the width non-decreasing in the length of the badge text.
  With a font in which a full stop is narrower than a digit, the three characters
  "..3" (count "523", one digit allowed) give a narrower badge than the two characters
  "12".
\<close>

theorem CountUnreadBadgeSize_length_counterexample:
  "length (ComputeUnreadBadgeText ''12'' 1) = 2
   \<and> length (ComputeUnreadBadgeText ''523'' 1) = 3
   \<and> fst (CountUnreadBadgeSize ''12'' exampleStyle 1) = 24
   \<and> fst (CountUnreadBadgeSize ''523'' exampleStyle 1) = 23
   \<and> fst (CountUnreadBadgeSize ''523'' exampleStyle 1)
       < fst (CountUnreadBadgeSize ''12'' exampleStyle 1)"
  by (simp add: CountUnreadBadgeSize_def ComputeUnreadBadgeText_def exampleStyle_def
      UnreadBadgeStyle_init_def exampleConsts_def narrowDotFont_def)

section \<open>PaintRow\<close>

lemmas example_defs =
  wideContext_def narrowContext_def examplePeer_def exampleItem_def exampleDraft_def
  exampleThread_def exampleHistory_def exampleEntry_def exampleArgs_def

lemmas paint_defs =
  PaintRow_def localDraft_def trailingLine_def cornerEvents_def pinnedIconEvents_def
  nameEvents_def sendStateIcon_def userpicOf_def promoted_def promotionLabel_def
  ChatTypeIcon_def ShowUserBotIcon_def ShowSendActionInDialogs_def sendActionPainted_def
  pinnedDialogShown_def variantOf_def Let_def

subsection \<open>The two shapes of a row\<close>

lemma PaintRow_narrow:
  "ctx_width (a_context a) \<le> ctx_nameLeft (a_context a) \<Longrightarrow>
     PaintRow a
       = [FillRect (variantOf (ctx_active (a_context a)) (ctx_selected (a_context a))),
          PaintRipple, PaintUserpic (userpicOf a)]
         @ (if localDraft a = None \<and> a_item a \<noteq> None \<and> \<not> itemIsEmpty a
            then [CallPaintCounter] else [])"
  by (auto simp: PaintRow_def Let_def itemIsEmpty_def split: option.splits)

lemma PaintRow_wide:
  "\<not> ctx_width (a_context a) \<le> ctx_nameLeft (a_context a) \<Longrightarrow>
     PaintRow a
       = [FillRect (variantOf (ctx_active (a_context a)) (ctx_selected (a_context a))),
          PaintRipple, PaintUserpic (userpicOf a)]
         @ cornerEvents a
         @ fst (trailingLine a (localDraft a))
         @ (if snd (trailingLine a (localDraft a))
            then (case sendStateIcon (a_thread a) (localDraft a) (a_item a) (a_context a) of
                    None \<Rightarrow> []
                  | Some (icon, iv) \<Rightarrow> [SendStateIcon icon iv])
                 @ nameEvents a
            else [])"
  by (simp add: PaintRow_def Let_def case_prod_beta)

lemma rowArgs_context [simp]: "a_context (rowArgs row ctx) = ctx"
  by (simp add: rowArgs_def)

lemma PaintUnreadBadgeRect_asserted:
  "PaintUnreadBadgeRect (w, st_size st) st \<noteq> None"
  by (simp add: PaintUnreadBadgeRect_def Let_def)

lemma trailingLine_unfinished:
  "\<not> snd (trailingLine a d) \<Longrightarrow> a_thread a = None"
  by (auto simp: trailingLine_def Let_def split: option.splits if_splits)

subsection \<open>The trailing line\<close>

lemma trailingRenderers_simps:
  "trailingRenderers [] = []"
  "trailingRenderers (Trailing r # evs) = r # trailingRenderers evs"
  "trailingRenderers (xs @ ys) = trailingRenderers xs @ trailingRenderers ys"
  by (simp_all add: trailingRenderers_def trailingOf_def)

lemma trailingRenderers_other:
  "trailingOf e = [] \<Longrightarrow> trailingRenderers (e # evs) = trailingRenderers evs"
  by (simp add: trailingRenderers_def)

lemma trailingRenderers_pinned: "trailingRenderers (pinnedIconEvents a) = []"
  by (simp add: pinnedIconEvents_def trailingRenderers_def trailingOf_def)

lemma trailingRenderers_corner: "trailingRenderers (cornerEvents a) = []"
  by (auto simp: cornerEvents_def trailingRenderers_def trailingOf_def Let_def
      split: option.splits)

lemma trailingRenderers_name: "trailingRenderers (nameEvents a) = []"
  by (simp add: nameEvents_def trailingRenderers_def trailingOf_def Let_def)

lemma trailingRenderers_trailingLine:
  "trailingRenderers (fst (trailingLine a d))
     = specTrailing (promotedWithBanner a)
         (d \<noteq> None \<or> (e_supportMode (a_entry a) \<and> e_isOccupiedBySomeone (a_entry a)))
         (a_item a \<noteq> None) (itemIsEmpty a) (pinnedDialogShown (a_entry a) (a_context a))"
  by (auto simp: trailingLine_def Let_def specTrailing_def promotedWithBanner_def
      itemIsEmpty_def trailingRenderers_simps trailingRenderers_pinned
      trailingRenderers_other trailingOf_def
      split: option.splits)

lemma trailingContent_simps:
  "trailingContent [] = []"
  "trailingContent (e # evs)
     = (if isTrailingContent e then e # trailingContent evs else trailingContent evs)"
  "trailingContent (xs @ ys) = trailingContent xs @ trailingContent ys"
  by (simp_all add: trailingContent_def)

lemma trailingContent_pinned: "trailingContent (pinnedIconEvents a) = []"
  by (simp add: pinnedIconEvents_def trailingContent_def isTrailingContent_def)

lemma trailingContent_corner: "trailingContent (cornerEvents a) = []"
  by (auto simp: cornerEvents_def trailingContent_def isTrailingContent_def Let_def
      split: option.splits)

lemma trailingContent_name: "trailingContent (nameEvents a) = []"
  by (simp add: nameEvents_def trailingContent_def isTrailingContent_def Let_def)

lemma trailingContent_trailingLine:
  "trailingContent (fst (trailingLine a d))
     = (let v = variantOf (ctx_active (a_context a)) (ctx_selected (a_context a))
        in if promotedWithBanner a then [DrawCache DefaultPalette v]
           else if d \<noteq> None \<or> (e_supportMode (a_entry a) \<and> e_isOccupiedBySomeone (a_entry a))
           then (if sendActionPainted (a_thread a) then [SendAction]
                 else (case a_thread a of
                         None \<Rightarrow> []
                       | Some t \<Rightarrow>
                           [DrawCache (if e_supportMode (a_entry a) then TakenPalette
                                       else DraftPalette) v]))
           else if a_item a = None
           then (if sendActionPainted (a_thread a) then [SendAction] else [])
           else if \<not> itemIsEmpty a
           then [CallPaintItem (ctx_nameLeft (a_context a))
                   (ctx_width (a_context a) - ctx_nameLeft (a_context a)
                      - ctx_paddingRight (a_context a))]
           else [])"
  by (auto simp: trailingLine_def Let_def promotedWithBanner_def itemIsEmpty_def
      trailingContent_simps trailingContent_pinned isTrailingContent_def
      split: option.splits)

lemma PinnedIcon_trailingLine:
  "(PinnedIcon w \<in> set (fst (trailingLine a d)))
     = (\<not> promotedWithBanner a
        \<and> ((d \<noteq> None \<or> (e_supportMode (a_entry a) \<and> e_isOccupiedBySomeone (a_entry a)))
            \<or> a_item a = None \<or> itemIsEmpty a)
        \<and> pinnedDialogShown (a_entry a) (a_context a)
        \<and> w = variantOf (ctx_active (a_context a)) (ctx_selected (a_context a)))"
  by (auto simp: trailingLine_def Let_def promotedWithBanner_def itemIsEmpty_def
      pinnedIconEvents_def
      split: option.splits)

lemma PinnedIcon_PaintRow:
  "(PinnedIcon w \<in> set (PaintRow a))
     = (\<not> ctx_width (a_context a) \<le> ctx_nameLeft (a_context a)
        \<and> \<not> promotedWithBanner a
        \<and> (draftOrOccupied a \<or> a_item a = None \<or> itemIsEmpty a)
        \<and> pinnedDialogShown (a_entry a) (a_context a)
        \<and> w = variantOf (ctx_active (a_context a)) (ctx_selected (a_context a)))"
proof (cases "ctx_width (a_context a) \<le> ctx_nameLeft (a_context a)")
  case True
  then show ?thesis
    by (simp add: PaintRow_narrow)
next
  case False
  have "PinnedIcon w \<notin> set (cornerEvents a)" "PinnedIcon w \<notin> set (nameEvents a)"
    by (auto simp: cornerEvents_def nameEvents_def Let_def split: option.splits)
  with False show ?thesis
    by (auto simp: PaintRow_wide PinnedIcon_trailingLine draftOrOccupied_def
        split: option.splits)
qed

lemma trailingRenderers_PaintRow:
  "trailingRenderers (PaintRow a)
     = (if ctx_width (a_context a) \<le> ctx_nameLeft (a_context a) then []
        else specTrailing (promotedWithBanner a) (draftOrOccupied a)
               (a_item a \<noteq> None) (itemIsEmpty a)
               (pinnedDialogShown (a_entry a) (a_context a)))"
proof (cases "ctx_width (a_context a) \<le> ctx_nameLeft (a_context a)")
  case True
  then show ?thesis
    by (simp add: PaintRow_narrow trailingRenderers_simps trailingRenderers_other
        trailingOf_def)
next
  case False
  then have "trailingRenderers (PaintRow a)
      = trailingRenderers (fst (trailingLine a (localDraft a)))"
    by (simp add: PaintRow_wide trailingRenderers_simps trailingRenderers_other
        trailingOf_def trailingRenderers_corner trailingRenderers_name
        split: option.splits)
  moreover have "(localDraft a \<noteq> None
       \<or> (e_supportMode (a_entry a) \<and> e_isOccupiedBySomeone (a_entry a)))
      = draftOrOccupied a"
    by (simp add: draftOrOccupied_def)
  ultimately show ?thesis
    using False by (simp only: trailingRenderers_trailingLine if_False)
qed

lemma trailingContent_PaintRow:
  "trailingContent (PaintRow a)
     = (if ctx_width (a_context a) \<le> ctx_nameLeft (a_context a) then []
        else
          (let v = variantOf (ctx_active (a_context a)) (ctx_selected (a_context a))
           in if promotedWithBanner a then [DrawCache DefaultPalette v]
              else if draftOrOccupied a
              then (if sendActionPainted (a_thread a) then [SendAction]
                    else (case a_thread a of
                            None \<Rightarrow> []
                          | Some t \<Rightarrow>
                              [DrawCache (if e_supportMode (a_entry a) then TakenPalette
                                          else DraftPalette) v]))
              else if a_item a = None
              then (if sendActionPainted (a_thread a) then [SendAction] else [])
              else if \<not> itemIsEmpty a
              then [CallPaintItem (ctx_nameLeft (a_context a))
                      (ctx_width (a_context a) - ctx_nameLeft (a_context a)
                         - ctx_paddingRight (a_context a))]
              else []))"
proof (cases "ctx_width (a_context a) \<le> ctx_nameLeft (a_context a)")
  case True
  then show ?thesis
    by (simp add: PaintRow_narrow trailingContent_simps isTrailingContent_def)
next
  case False
  then have "trailingContent (PaintRow a)
      = trailingContent (fst (trailingLine a (localDraft a)))"
    by (simp add: PaintRow_wide trailingContent_simps isTrailingContent_def
        trailingContent_corner trailingContent_name
        split: option.splits)
  moreover have "(localDraft a \<noteq> None
       \<or> (e_supportMode (a_entry a) \<and> e_isOccupiedBySomeone (a_entry a)))
      = draftOrOccupied a"
    by (simp add: draftOrOccupied_def)
  ultimately show ?thesis
    using False by (simp only: trailingContent_trailingLine if_False)
qed

text \<open>
  Claim C1, as amended.  For every row state and every paint context, one
  \<^verbatim>\<open>PaintRow\<close> call enters at most one arm of the trailing-line chain and paints at most
  one trailing-line content, so the renderers are mutually exclusive.  In a context
  wider than \<^verbatim>\<open>nameLeft\<close> the state selects the arm by priority: promotion banner text;
  draft or occupied line (the typing animation if one is painted, else the cached
  line); typing animation or blank for a row without message; the item callback for a
  non-empty message; nothing but the pinned icon for a pinned row with an empty message.
  The chain is not exhaustive: an unpinned row with an empty message enters no arm and
  paints nothing on the trailing line, and in a context no wider than \<^verbatim>\<open>nameLeft\<close> no
  arm is entered at all.  The pinned icon is painted by the draft, no-message and
  empty-message arms of a pinned row, and only there.
\<close>

theorem PaintRow_trailing_at_most_one:
  "trailingRenderers (PaintRow a)
     = (if ctx_width (a_context a) \<le> ctx_nameLeft (a_context a) then []
        else specTrailing (promotedWithBanner a) (draftOrOccupied a)
               (a_item a \<noteq> None) (itemIsEmpty a)
               (pinnedDialogShown (a_entry a) (a_context a)))
   \<and> length (trailingRenderers (PaintRow a)) \<le> 1
   \<and> (length (trailingRenderers (PaintRow a)) = 1)
       = (\<not> ctx_width (a_context a) \<le> ctx_nameLeft (a_context a)
          \<and> (promotedWithBanner a \<or> draftOrOccupied a \<or> a_item a = None
              \<or> \<not> itemIsEmpty a \<or> pinnedDialogShown (a_entry a) (a_context a)))
   \<and> trailingContent (PaintRow a)
       = (if ctx_width (a_context a) \<le> ctx_nameLeft (a_context a) then []
          else
            (let v = variantOf (ctx_active (a_context a)) (ctx_selected (a_context a))
             in if promotedWithBanner a then [DrawCache DefaultPalette v]
                else if draftOrOccupied a
                then (if sendActionPainted (a_thread a) then [SendAction]
                      else (case a_thread a of
                              None \<Rightarrow> []
                            | Some t \<Rightarrow>
                                [DrawCache (if e_supportMode (a_entry a) then TakenPalette
                                            else DraftPalette) v]))
                else if a_item a = None
                then (if sendActionPainted (a_thread a) then [SendAction] else [])
                else if \<not> itemIsEmpty a
                then [CallPaintItem (ctx_nameLeft (a_context a))
                        (ctx_width (a_context a) - ctx_nameLeft (a_context a)
                           - ctx_paddingRight (a_context a))]
                else []))
   \<and> length (trailingContent (PaintRow a)) \<le> 1
   \<and> (PinnedIcon w \<in> set (PaintRow a))
       = (\<not> ctx_width (a_context a) \<le> ctx_nameLeft (a_context a)
          \<and> \<not> promotedWithBanner a
          \<and> (draftOrOccupied a \<or> a_item a = None \<or> itemIsEmpty a)
          \<and> pinnedDialogShown (a_entry a) (a_context a)
          \<and> w = variantOf (ctx_active (a_context a)) (ctx_selected (a_context a)))"
proof (intro conjI)
  show "length (trailingRenderers (PaintRow a)) \<le> 1"
    by (simp add: trailingRenderers_PaintRow specTrailing_def)
  show "(length (trailingRenderers (PaintRow a)) = 1)
       = (\<not> ctx_width (a_context a) \<le> ctx_nameLeft (a_context a)
          \<and> (promotedWithBanner a \<or> draftOrOccupied a \<or> a_item a = None
              \<or> \<not> itemIsEmpty a \<or> pinnedDialogShown (a_entry a) (a_context a)))"
    by (auto simp: trailingRenderers_PaintRow specTrailing_def)
  show "length (trailingContent (PaintRow a)) \<le> 1"
    by (simp add: trailingContent_PaintRow Let_def split: option.splits)
qed (rule trailingRenderers_PaintRow trailingContent_PaintRow PinnedIcon_PaintRow)+

theorem PaintRow_trailing_at_most_one_witness:
  "trailingRenderers (PaintRow exampleArgs) = [LastMessagePreview]
   \<and> trailingContent (PaintRow exampleArgs) = [CallPaintItem 68 222]
   \<and> trailingRenderers (PaintRow draftArgs) = [DraftOrOccupied]
   \<and> trailingContent (PaintRow draftArgs) = [DrawCache DraftPalette Plain]
   \<and> trailingRenderers (PaintRow narrowArgs) = []
   \<and> trailingRenderers (PaintRow emptyItemArgs) = []
   \<and> trailingContent (PaintRow emptyItemArgs) = []"
  using PaintRow_trailing_at_most_one [of exampleArgs]
    PaintRow_trailing_at_most_one [of draftArgs]
    PaintRow_trailing_at_most_one [of narrowArgs]
    PaintRow_trailing_at_most_one [of emptyItemArgs]
  by (simp add: specTrailing_def promotedWithBanner_def draftOrOccupied_def itemIsEmpty_def
      localDraft_def promoted_def example_defs draftArgs_def narrowArgs_def
      emptyItemArgs_def emptyItem_def pinnedDialogShown_def variantOf_def
      sendActionPainted_def ShowSendActionInDialogs_def)

text \<open>
  Claim C1 as stated has exactly one renderer entered in every state and every paint
  context.  In a context whose width is \<^verbatim>\<open>nameLeft\<close> the call returns before the chain;
  and in a wide context an unpinned row whose message is empty passes every test of the
  chain: in both no arm is entered and nothing is painted on the trailing line.
\<close>

theorem PaintRow_trailing_not_exhaustive_counterexample:
  "ctx_width (a_context narrowArgs) \<le> ctx_nameLeft (a_context narrowArgs)
   \<and> PaintRow narrowArgs
       = [FillRect Plain, PaintRipple, PaintUserpic (PeerUserpic True), CallPaintCounter]
   \<and> trailingRenderers (PaintRow narrowArgs) = []
   \<and> length (trailingRenderers (PaintRow narrowArgs)) \<noteq> 1
   \<and> trailingContent (PaintRow narrowArgs) = []
   \<and> \<not> ctx_width (a_context emptyItemArgs) \<le> ctx_nameLeft (a_context emptyItemArgs)
   \<and> PaintRow emptyItemArgs
       = [FillRect Plain, PaintRipple, PaintUserpic (PeerUserpic True), PeerBadge Plain,
          NameText FromName Plain]
   \<and> trailingRenderers (PaintRow emptyItemArgs) = []
   \<and> length (trailingRenderers (PaintRow emptyItemArgs)) \<noteq> 1
   \<and> trailingContent (PaintRow emptyItemArgs) = []"
  by (simp add: paint_defs example_defs narrowArgs_def emptyItemArgs_def emptyItem_def
      trailingRenderers_def trailingOf_def trailingContent_def isTrailingContent_def)

subsection \<open>A row too narrow for a name\<close>

lemma PaintUnreadBadge_isBadgeEvent:
  "e \<in> set (fst (PaintUnreadBadge c st d)) \<Longrightarrow> isBadgeEvent e"
  by (auto simp: PaintUnreadBadge_def PaintUnreadBadgeRect_def Let_def isBadgeEvent_def
      split: if_splits)

lemma PaintNarrowCounter_isBadgeEvent:
  "e \<in> set (PaintNarrowCounter S ctx c m me re n mu mm) \<Longrightarrow> isBadgeEvent e"
  by (auto simp: PaintNarrowCounter_def Let_def isBadgeEvent_def
      dest: PaintUnreadBadge_isBadgeEvent split: if_splits)

lemma isBadgeEvent_narrowRowEvent: "isBadgeEvent e \<Longrightarrow> narrowRowEvent e"
  by (cases e) (simp_all add: narrowRowEvent_def isBadgeEvent_def)

text \<open>
  Claim C7.  For every paint context with width at most \<^verbatim>\<open>nameLeft\<close>, \<^verbatim>\<open>PaintRow\<close>
  paints the background, the ripple and the userpic, calls the narrow counter callback
  when there is no draft and a non-empty message, and returns: no name, date, trailing
  line, send-state icon, pinned icon or wide badge.  For a row of the list the callback
  paints badges only.
\<close>

theorem PaintRow_narrow_only_counter:
  "(ctx_width (a_context a) \<le> ctx_nameLeft (a_context a) \<longrightarrow>
      PaintRow a
        = [FillRect (variantOf (ctx_active (a_context a)) (ctx_selected (a_context a))),
           PaintRipple, PaintUserpic (userpicOf a)]
          @ (if localDraft a = None \<and> a_item a \<noteq> None \<and> \<not> itemIsEmpty a
             then [CallPaintCounter] else []))
   \<and> (ctx_width ctx \<le> ctx_nameLeft ctx \<longrightarrow>
        list_all narrowRowEvent (RowPainter_Paint S row ctx))"
proof -
  have "list_all narrowRowEvent (RowPainter_Paint S row ctx)"
    if "ctx_width ctx \<le> ctx_nameLeft ctx"
  proof -
    from that
    have "ctx_width (a_context (rowArgs row ctx)) \<le> ctx_nameLeft (a_context (rowArgs row ctx))"
      by simp
    from PaintRow_narrow [OF this] show ?thesis
      by (auto simp: RowPainter_Paint_def runCallback_def narrowRowEvent_def list_all_iff
          paintCounterCallback_def
          dest!: PaintNarrowCounter_isBadgeEvent isBadgeEvent_narrowRowEvent)
  qed
  then show ?thesis
    using PaintRow_narrow [of a] by blast
qed

theorem PaintRow_narrow_only_counter_witness:
  "ctx_width (a_context narrowArgs) \<le> ctx_nameLeft (a_context narrowArgs)
   \<and> PaintRow narrowArgs
       = [FillRect Plain, PaintRipple, PaintUserpic (PeerUserpic True), CallPaintCounter]"
  using PaintRow_narrow_only_counter [of narrowArgs]
  by (simp add: narrowArgs_def example_defs localDraft_def itemIsEmpty_def userpicOf_def
      variantOf_def)

subsection \<open>The send-state icon\<close>

lemma SendStateIcon_notin_pinned: "SendStateIcon k w \<notin> set (pinnedIconEvents a)"
  by (simp add: pinnedIconEvents_def)

lemma SendStateIcon_notin_corner: "SendStateIcon k w \<notin> set (cornerEvents a)"
  by (auto simp: cornerEvents_def Let_def split: option.splits)

lemma SendStateIcon_notin_name: "SendStateIcon k w \<notin> set (nameEvents a)"
  by (auto simp: nameEvents_def Let_def)

lemma SendStateIcon_notin_trailingLine: "SendStateIcon k w \<notin> set (fst (trailingLine a d))"
  by (auto simp: trailingLine_def Let_def SendStateIcon_notin_pinned split: option.splits)

lemma SendStateIcon_painted:
  "\<not> ctx_width (a_context a) \<le> ctx_nameLeft (a_context a) \<Longrightarrow>
     (SendStateIcon k w \<in> set (PaintRow a))
       = (sendStateIcon (a_thread a) (localDraft a) (a_item a) (a_context a) = Some (k, w))"
proof (cases "snd (trailingLine a (localDraft a))")
  case True
  assume "\<not> ctx_width (a_context a) \<le> ctx_nameLeft (a_context a)"
  with True show ?thesis
    by (auto simp: PaintRow_wide SendStateIcon_notin_trailingLine
        SendStateIcon_notin_corner SendStateIcon_notin_name
        split: option.splits)
next
  case False
  assume wide: "\<not> ctx_width (a_context a) \<le> ctx_nameLeft (a_context a)"
  from False have "a_thread a = None"
    by (rule trailingLine_unfinished)
  then have "sendStateIcon (a_thread a) (localDraft a) (a_item a) (a_context a) = None"
    by (simp add: sendStateIcon_def)
  with False wide show ?thesis
    by (simp add: PaintRow_wide SendStateIcon_notin_trailingLine SendStateIcon_notin_corner)
qed

text \<open>
  Claim C5.  The send-state icon, for the draft \<^verbatim>\<open>PaintRow\<close> holds when it selects the
  icon: none when no thread is known; with a draft, the
  sending icon if and only if its \<^verbatim>\<open>saveRequestId\<close> is non-zero; without a draft, for a
  non-empty message that needs a delivery check, the sending icon when the message is
  sending or has failed, else the sent icon when it is unread by the thread, else the
  received icon; none in all remaining cases.  A row wider than \<^verbatim>\<open>nameLeft\<close> paints
  exactly the icon selected.
\<close>

theorem sendStateIcon_selection:
  "sendStateIcon thread draft item ctx =
     (if thread = None then None
      else case draft of
             Some d \<Rightarrow>
               if d_saveRequestId d \<noteq> 0
               then Some (SendingIcon, variantOf (ctx_active ctx) (ctx_selected ctx))
               else None
           | None \<Rightarrow>
               (case item of
                  None \<Rightarrow> None
                | Some i \<Rightarrow>
                    if i_isEmpty i \<or> \<not> i_needCheck i then None
                    else if i_isSending i \<or> i_hasFailed i
                    then Some (SendingIcon, variantOf (ctx_active ctx) (ctx_selected ctx))
                    else if i_unread i
                    then Some (SentIcon, variantOf (ctx_active ctx) (ctx_selected ctx))
                    else Some (ReceivedIcon, variantOf (ctx_active ctx) (ctx_selected ctx))))
   \<and> (\<not> ctx_width (a_context a) \<le> ctx_nameLeft (a_context a) \<longrightarrow>
        (SendStateIcon k w \<in> set (PaintRow a))
          = (sendStateIcon (a_thread a) (localDraft a) (a_item a) (a_context a)
               = Some (k, w)))"
  by (simp add: SendStateIcon_painted) (simp add: sendStateIcon_def Let_def split: option.splits)

theorem sendStateIcon_selection_witness:
  "sendStateIcon (Some exampleThread) (Some exampleDraft) (Some exampleItem) wideContext
     = Some (SendingIcon, Plain)
   \<and> sendStateIcon (Some exampleThread) None (Some exampleItem) wideContext
       = Some (SentIcon, Plain)
   \<and> sendStateIcon None (Some exampleDraft) (Some exampleItem) wideContext = None
   \<and> SendStateIcon SentIcon Plain \<in> set (PaintRow exampleArgs)"
  using sendStateIcon_selection
      [of "Some exampleThread" "Some exampleDraft" "Some exampleItem" wideContext]
    sendStateIcon_selection
      [of "Some exampleThread" None "Some exampleItem" wideContext exampleArgs SentIcon Plain]
    sendStateIcon_selection [of None "Some exampleDraft" "Some exampleItem" wideContext]
  by (simp add: example_defs variantOf_def localDraft_def)

subsection \<open>Support mode\<close>

lemma localDraft_support: "e_supportMode (a_entry a) \<Longrightarrow> localDraft a = None"
  by (simp add: localDraft_def)

lemma draft_irrelevant:
  "promoted (a\<lparr>a_draft := x\<rparr>) = promoted a"
  "pinnedIconEvents (a\<lparr>a_draft := x\<rparr>) = pinnedIconEvents a"
  "cornerEvents (a\<lparr>a_draft := x\<rparr>) = cornerEvents a"
  "nameEvents (a\<lparr>a_draft := x\<rparr>) = nameEvents a"
  "userpicOf (a\<lparr>a_draft := x\<rparr>) = userpicOf a"
  by (simp_all add: promoted_def pinnedIconEvents_def cornerEvents_def nameEvents_def
      userpicOf_def pinnedDialogShown_def Let_def cong: if_cong option.case_cong)

lemma trailingLine_draft_irrelevant:
  "trailingLine (a\<lparr>a_draft := x\<rparr>) d = trailingLine a d"
  by (simp add: trailingLine_def draft_irrelevant cong: if_cong option.case_cong)

lemma PaintRow_support_draft:
  assumes "e_supportMode (a_entry a)"
  shows "PaintRow (a\<lparr>a_draft := x\<rparr>) = PaintRow a"
  using assms
  by (simp add: PaintRow_def localDraft_def trailingLine_draft_irrelevant draft_irrelevant
      cong: if_cong)

lemma draft_events_notin_pinned:
  "SetCacheText DraftPreviewText \<notin> set (pinnedIconEvents a)"
  "DrawCache DraftPalette v \<notin> set (pinnedIconEvents a)"
  "Trailing r \<notin> set (pinnedIconEvents a)"
  by (simp_all add: pinnedIconEvents_def)

lemma draft_events_notin_corner:
  "SetCacheText DraftPreviewText \<notin> set (cornerEvents a)"
  "DrawCache DraftPalette v \<notin> set (cornerEvents a)"
  "Trailing r \<notin> set (cornerEvents a)"
  by (auto simp: cornerEvents_def Let_def split: option.splits)

lemma draft_events_notin_name:
  "SetCacheText DraftPreviewText \<notin> set (nameEvents a)"
  "DrawCache DraftPalette v \<notin> set (nameEvents a)"
  "Trailing r \<notin> set (nameEvents a)"
  by (auto simp: nameEvents_def Let_def)

lemma trailingLine_support:
  assumes "e_supportMode (a_entry a)"
  shows "SetCacheText DraftPreviewText \<notin> set (fst (trailingLine a None))"
    and "DrawCache DraftPalette v \<notin> set (fst (trailingLine a None))"
    and "Trailing DraftOrOccupied \<in> set (fst (trailingLine a None))
           \<Longrightarrow> e_isOccupiedBySomeone (a_entry a)"
  using assms
  by (auto simp: trailingLine_def Let_def draft_events_notin_pinned
      split: option.splits if_splits)

lemma PaintRow_support_events:
  assumes "e_supportMode (a_entry a)"
  shows "SetCacheText DraftPreviewText \<notin> set (PaintRow a)"
    and "DrawCache DraftPalette v \<notin> set (PaintRow a)"
    and "Trailing DraftOrOccupied \<in> set (PaintRow a) \<Longrightarrow> e_isOccupiedBySomeone (a_entry a)"
proof -
  note facts = trailingLine_support [OF assms] localDraft_support [OF assms]
    draft_events_notin_corner draft_events_notin_name
  show "SetCacheText DraftPreviewText \<notin> set (PaintRow a)"
    using facts
    by (cases "ctx_width (a_context a) \<le> ctx_nameLeft (a_context a)")
      (auto simp: PaintRow_narrow PaintRow_wide split: option.splits)
  show "DrawCache DraftPalette v \<notin> set (PaintRow a)"
    using facts
    by (cases "ctx_width (a_context a) \<le> ctx_nameLeft (a_context a)")
      (auto simp: PaintRow_narrow PaintRow_wide split: option.splits)
  show "e_isOccupiedBySomeone (a_entry a)" if "Trailing DraftOrOccupied \<in> set (PaintRow a)"
    using that facts
    by (cases "ctx_width (a_context a) \<le> ctx_nameLeft (a_context a)")
      (auto simp: PaintRow_narrow PaintRow_wide split: option.splits if_splits)
qed

text \<open>
  Claim C9.  In support mode \<^verbatim>\<open>PaintRow\<close> drops the draft it is given before
  anything else: it paints what it paints without a draft, so it never builds the draft
  preview text, never draws with the draft palette, and selects the send-state icon
  without a draft (no sending icon for a pending save request); the draft-or-occupied
  arm of the trailing line is entered only when the chat is occupied by someone.
\<close>

theorem PaintRow_support_mode_discards_draft:
  "e_supportMode (a_entry a) \<longrightarrow>
     PaintRow a = PaintRow (a\<lparr>a_draft := None\<rparr>)
     \<and> SetCacheText DraftPreviewText \<notin> set (PaintRow a)
     \<and> DrawCache DraftPalette v \<notin> set (PaintRow a)
     \<and> (SendStateIcon k w \<in> set (PaintRow a) \<longrightarrow>
          sendStateIcon (a_thread a) None (a_item a) (a_context a) = Some (k, w))
     \<and> (Trailing DraftOrOccupied \<in> set (PaintRow a) \<longrightarrow> e_isOccupiedBySomeone (a_entry a))"
proof
  assume support: "e_supportMode (a_entry a)"
  have icon: "sendStateIcon (a_thread a) None (a_item a) (a_context a) = Some (k, w)"
    if "SendStateIcon k w \<in> set (PaintRow a)"
  proof (cases "ctx_width (a_context a) \<le> ctx_nameLeft (a_context a)")
    case True
    with that show ?thesis
      by (auto simp: PaintRow_narrow split: if_splits)
  next
    case False
    with that show ?thesis
      by (simp add: SendStateIcon_painted localDraft_support [OF support])
  qed
  show "PaintRow a = PaintRow (a\<lparr>a_draft := None\<rparr>)
     \<and> SetCacheText DraftPreviewText \<notin> set (PaintRow a)
     \<and> DrawCache DraftPalette v \<notin> set (PaintRow a)
     \<and> (SendStateIcon k w \<in> set (PaintRow a) \<longrightarrow>
          sendStateIcon (a_thread a) None (a_item a) (a_context a) = Some (k, w))
     \<and> (Trailing DraftOrOccupied \<in> set (PaintRow a) \<longrightarrow> e_isOccupiedBySomeone (a_entry a))"
    using PaintRow_support_draft [OF support, of None] PaintRow_support_events [OF support] icon
    by simp
qed

theorem PaintRow_support_mode_discards_draft_witness:
  "e_supportMode (a_entry supportArgs)
   \<and> a_draft supportArgs = Some exampleDraft
   \<and> d_saveRequestId exampleDraft \<noteq> 0
   \<and> PaintRow supportArgs = PaintRow (supportArgs\<lparr>a_draft := None\<rparr>)
   \<and> SetCacheText DraftPreviewText \<notin> set (PaintRow supportArgs)
   \<and> DrawCache DraftPalette Plain \<notin> set (PaintRow supportArgs)
   \<and> SendStateIcon SendingIcon Plain \<notin> set (PaintRow supportArgs)"
proof -
  have support: "e_supportMode (a_entry supportArgs)"
    and draft: "a_draft supportArgs = Some exampleDraft"
    and pending: "d_saveRequestId exampleDraft \<noteq> 0"
    by (simp_all add: supportArgs_def draftArgs_def exampleDraft_def)
  have "sendStateIcon (a_thread supportArgs) None (a_item supportArgs) (a_context supportArgs)
          = Some (SentIcon, Plain)"
    by (simp add: sendStateIcon_def variantOf_def supportArgs_def draftArgs_def example_defs)
  with support draft pending
    PaintRow_support_mode_discards_draft [of supportArgs Plain SendingIcon Plain]
  show ?thesis
    by auto
qed

section \<open>RowPainter::Paint for a row of the list\<close>

lemmas row_defs =
  RowPainter_Paint_def runCallback_def rowArgs_def cloudDraft_def displayDate_def
  displayMentionBadge_def displayReactionBadge_def displayUnreadCounter_def
  displayUnreadMark_def displayPinnedIcon_def mentionOrReactionMuted_def rowFrom_def
  allowUserOnline_def paintItemCallback_def paintCounterCallback_def

lemmas counter_defs =
  PaintWideCounter_def wideFirst_def PaintNarrowCounter_def PaintListEntryText_def
  PaintUnreadBadge_def PaintUnreadBadgeRect_def ComputeUnreadBadgeText_def
  UnreadBadgeStyle_init_def badgeIndex_def badgeBg_def bg_def reactionBg_def

lemmas row_example_defs =
  exampleRow_def exampleConsts_def narrowDotFont_def

subsection \<open>The events of the parts of a row\<close>

lemma pinnedIconEvents_event:
  "e \<in> set (pinnedIconEvents a) \<Longrightarrow>
     e = PinnedIcon (variantOf (ctx_active (a_context a)) (ctx_selected (a_context a)))"
  by (simp add: pinnedIconEvents_def split: if_splits)

lemma cornerEvents_event:
  "e \<in> set (cornerEvents a) \<Longrightarrow>
     (\<exists>l v. e = RowTopRight l v) \<or> (\<exists>i v. e = ChatTypeIconPaint i v)"
  by (auto simp: cornerEvents_def Let_def split: if_splits option.splits)

lemma nameEvents_event:
  "e \<in> set (nameEvents a) \<Longrightarrow> (\<exists>v. e = PeerBadge v) \<or> (\<exists>k v. e = NameText k v)"
  by (auto simp: nameEvents_def Let_def split: if_splits)

lemma trailingLine_event:
  "e \<in> set (fst (trailingLine a d)) \<Longrightarrow>
     (\<exists>r. e = Trailing r) \<or> (\<exists>t. e = SetCacheText t) \<or> (\<exists>p v. e = DrawCache p v)
     \<or> (\<exists>t v. e = RowDate t v)
     \<or> e = PinnedIcon (variantOf (ctx_active (a_context a)) (ctx_selected (a_context a)))
     \<or> e = SendAction
     \<or> e = NullThreadDeref
     \<or> e = CallPaintItem (ctx_nameLeft (a_context a))
            (ctx_width (a_context a) - ctx_nameLeft (a_context a)
               - ctx_paddingRight (a_context a))"
  unfolding trailingLine_def Let_def
  by (auto split: if_splits option.splits dest: pinnedIconEvents_event)

lemma trailingLine_item_arm:
  "CallPaintItem l w \<in> set (fst (trailingLine a d)) \<Longrightarrow>
     e \<in> set (fst (trailingLine a d)) \<Longrightarrow>
     e = Trailing LastMessagePreview \<or> (\<exists>t v. e = RowDate t v) \<or> e = CallPaintItem l w"
  unfolding trailingLine_def Let_def
  by (auto split: if_splits option.splits dest: pinnedIconEvents_event)

lemma PaintRow_event:
  assumes "e \<in> set (PaintRow a)"
  shows "(\<exists>v. e = FillRect v) \<or> e = PaintRipple \<or> (\<exists>u. e = PaintUserpic u)
         \<or> (ctx_width (a_context a) \<le> ctx_nameLeft (a_context a) \<and> e = CallPaintCounter)
         \<or> (\<not> ctx_width (a_context a) \<le> ctx_nameLeft (a_context a)
             \<and> (e \<in> set (cornerEvents a)
                 \<or> e \<in> set (fst (trailingLine a (localDraft a)))
                 \<or> (\<exists>k w. e = SendStateIcon k w)
                 \<or> e \<in> set (nameEvents a)))"
proof (cases "ctx_width (a_context a) \<le> ctx_nameLeft (a_context a)")
  case True
  with assms show ?thesis
    by (auto simp: PaintRow_narrow split: if_splits)
next
  case False
  with assms show ?thesis
    by (auto simp: PaintRow_wide split: if_splits option.splits)
qed

subsection \<open>The pinned icon\<close>

lemma PinnedIcon_notin_PaintUnreadBadge:
  "PinnedIcon v \<notin> set (fst (PaintUnreadBadge c st d))"
  using PaintUnreadBadge_isBadgeEvent [of "PinnedIcon v" c st d]
  by (auto simp: isBadgeEvent_def)

lemma PaintRow_no_badge: "e \<in> set (PaintRow a) \<Longrightarrow> \<not> isBadgeEvent e"
  by (auto simp: isBadgeEvent_def
      dest!: PaintRow_event cornerEvents_event nameEvents_event trailingLine_event
        pinnedIconEvents_event)

lemma PaintRow_item_call:
  assumes "CallPaintItem l w \<in> set (PaintRow a)"
  shows "PinnedIcon v \<notin> set (PaintRow a)" and "CallPaintCounter \<notin> set (PaintRow a)"
    and "CallPaintItem l' w' \<in> set (PaintRow a) \<Longrightarrow> l' = l \<and> w' = w"
proof -
  from assms have wide: "\<not> ctx_width (a_context a) \<le> ctx_nameLeft (a_context a)"
    and arm: "CallPaintItem l w \<in> set (fst (trailingLine a (localDraft a)))"
    by (auto dest!: PaintRow_event cornerEvents_event nameEvents_event)
  have other: "e = Trailing LastMessagePreview \<or> (\<exists>t v. e = RowDate t v) \<or> e = CallPaintItem l w
       \<or> (\<exists>v. e = FillRect v) \<or> e = PaintRipple \<or> (\<exists>u. e = PaintUserpic u)
       \<or> (\<exists>l v. e = RowTopRight l v) \<or> (\<exists>i v. e = ChatTypeIconPaint i v)
       \<or> (\<exists>k w. e = SendStateIcon k w) \<or> (\<exists>v. e = PeerBadge v) \<or> (\<exists>k v. e = NameText k v)"
    if "e \<in> set (PaintRow a)" for e
    using PaintRow_event [OF that] wide trailingLine_item_arm [OF arm, of e]
      cornerEvents_event [of e a] nameEvents_event [of e a]
    by blast
  show "PinnedIcon v \<notin> set (PaintRow a)"
    using other [of "PinnedIcon v"] by auto
  show "CallPaintCounter \<notin> set (PaintRow a)"
    using other [of CallPaintCounter] by auto
  show "l' = l \<and> w' = w" if "CallPaintItem l' w' \<in> set (PaintRow a)"
    using other [OF that] by auto
qed

lemma PaintRow_counter_call:
  assumes "CallPaintCounter \<in> set (PaintRow a)"
  shows "PinnedIcon v \<notin> set (PaintRow a)" and "CallPaintItem l w \<notin> set (PaintRow a)"
proof -
  from assms have "ctx_width (a_context a) \<le> ctx_nameLeft (a_context a)"
    by (auto dest!: PaintRow_event cornerEvents_event nameEvents_event trailingLine_event
        pinnedIconEvents_event)
  then show "PinnedIcon v \<notin> set (PaintRow a)" and "CallPaintItem l w \<notin> set (PaintRow a)"
    by (auto simp: PaintRow_narrow)
qed

lemma PinnedIcon_PaintWideCounter:
  "PinnedIcon v \<in> set (fst (PaintWideCounter S ctx w c m me re pin n mu mm))
     \<Longrightarrow> pin \<and> \<not> c \<and> \<not> m"
  by (auto simp: PaintWideCounter_def wideFirst_def Let_def PinnedIcon_notin_PaintUnreadBadge
      split: if_splits)

lemma PaintWideCounter_pinned_only:
  "\<not> c \<Longrightarrow> \<not> m \<Longrightarrow> \<not> me \<Longrightarrow> \<not> re \<Longrightarrow>
     e \<in> set (fst (PaintWideCounter S ctx w c m me re pin n mu mm)) \<Longrightarrow> \<not> isBadgeEvent e"
  by (auto simp: PaintWideCounter_def wideFirst_def Let_def isBadgeEvent_def split: if_splits)

lemma displayPinnedIcon_flags:
  "displayPinnedIcon row ctx \<Longrightarrow>
     \<not> displayUnreadCounter row \<and> \<not> displayUnreadMark row
     \<and> \<not> displayMentionBadge row \<and> \<not> displayReactionBadge row"
  by (simp add: displayPinnedIcon_def)

lemma paintItemCallback_event:
  "e \<in> set (paintItemCallback S row ctx l w) \<Longrightarrow>
     e \<in> set (rowWideCounter S row ctx w) \<or> e = SendAction \<or> (\<exists>v. e = ListEntryText v)
     \<or> e = PrepareItemView \<or> e = ItemViewPaint"
  by (auto simp: paintItemCallback_def rowWideCounter_def Let_def PaintListEntryText_def
      split: if_splits option.splits)

lemma paintItemCallback_pinned:
  assumes "PinnedIcon v \<in> set (paintItemCallback S row ctx l w)"
    and "e \<in> set (paintItemCallback S row ctx l w)"
  shows "\<not> isBadgeEvent e"
proof -
  from paintItemCallback_event [OF assms(1)]
  have "PinnedIcon v \<in> set (rowWideCounter S row ctx w)"
    by auto
  then have "displayPinnedIcon row ctx"
    unfolding rowWideCounter_def by (rule PinnedIcon_PaintWideCounter [THEN conjunct1])
  then have flags: "\<not> displayUnreadCounter row" "\<not> displayUnreadMark row"
    "\<not> displayMentionBadge row" "\<not> displayReactionBadge row"
    by (simp_all add: displayPinnedIcon_def)
  have wide: "\<not> isBadgeEvent e" if "e \<in> set (rowWideCounter S row ctx w)"
    using that unfolding rowWideCounter_def
    by (rule PaintWideCounter_pinned_only [OF flags])
  from paintItemCallback_event [OF assms(2)] show ?thesis
  proof (elim disjE exE)
    assume "e \<in> set (rowWideCounter S row ctx w)"
    then show ?thesis by (rule wide)
  qed (simp_all add: isBadgeEvent_def)
qed

lemma RowPainter_Paint_event:
  assumes "e \<in> set (RowPainter_Paint S row ctx)"
  shows "(e \<in> set (PaintRow (rowArgs row ctx)) \<and> e \<noteq> CallPaintCounter
           \<and> (\<forall>l w. e \<noteq> CallPaintItem l w))
         \<or> (\<exists>l w. CallPaintItem l w \<in> set (PaintRow (rowArgs row ctx))
                \<and> e \<in> set (paintItemCallback S row ctx l w))
         \<or> (CallPaintCounter \<in> set (PaintRow (rowArgs row ctx))
                \<and> e \<in> set (paintCounterCallback S row ctx))"
proof -
  from assms obtain x where x: "x \<in> set (PaintRow (rowArgs row ctx))"
    and e: "e \<in> set (runCallback (paintItemCallback S row ctx)
                        (paintCounterCallback S row ctx) x)"
    by (auto simp: RowPainter_Paint_def)
  show ?thesis
  proof (cases x)
    case CallPaintCounter
    with x e show ?thesis by (simp add: runCallback_def)
  next
    case (CallPaintItem l w)
    with x e show ?thesis by (auto simp: runCallback_def)
  qed (use x e in \<open>auto simp: runCallback_def\<close>)
qed

lemma RowPainter_Paint_pinned_no_badge:
  assumes pinned: "PinnedIcon v \<in> set (RowPainter_Paint S row ctx)"
    and e: "e \<in> set (RowPainter_Paint S row ctx)"
  shows "\<not> isBadgeEvent e"
proof
  assume badge: "isBadgeEvent e"
  let ?a = "rowArgs row ctx"
  have counter_no_pin: "PinnedIcon v \<notin> set (paintCounterCallback S row ctx)"
    using PaintNarrowCounter_isBadgeEvent [of "PinnedIcon v"]
    by (auto simp: paintCounterCallback_def isBadgeEvent_def)
  from RowPainter_Paint_event [OF e] badge
  consider (item) l w where "CallPaintItem l w \<in> set (PaintRow ?a)"
      "e \<in> set (paintItemCallback S row ctx l w)"
    | (counter) "CallPaintCounter \<in> set (PaintRow ?a)"
    by (auto dest: PaintRow_no_badge)
  then show False
  proof cases
    case item
    note no = PaintRow_item_call [OF item(1)]
    from RowPainter_Paint_event [OF pinned] no(1) no(2)
    obtain l' w' where call: "CallPaintItem l' w' \<in> set (PaintRow ?a)"
      and pin: "PinnedIcon v \<in> set (paintItemCallback S row ctx l' w')"
      by auto
    from no(3) [OF call] have "l' = l \<and> w' = w" .
    with pin item(2) badge show False
      by (auto dest: paintItemCallback_pinned)
  next
    case counter
    note no = PaintRow_counter_call [OF counter]
    from RowPainter_Paint_event [OF pinned] no counter_no_pin show False
      by auto
  qed
qed

text \<open>
  Claim C4.  In \<^verbatim>\<open>RowPainter::Paint\<close> for a row of the list,
  \<open>displayPinnedIcon\<close> implies that the unread counter, the unread mark, the mention
  badge and the reaction badge are all not displayed; \<^verbatim>\<open>PaintWideCounter\<close> draws the
  pinned icon only in the branch taken when neither counter nor mark is drawn; and a
  paint of the row that draws the pinned icon draws no badge at all.
\<close>

theorem displayPinnedIcon_excludes_badges:
  "(displayPinnedIcon row ctx \<longrightarrow>
      \<not> displayUnreadCounter row \<and> \<not> displayUnreadMark row
      \<and> \<not> displayMentionBadge row \<and> \<not> displayReactionBadge row)
   \<and> (PinnedIcon v \<in> set (fst (PaintWideCounter S ctx w c m me re pin n mu mm)) \<longrightarrow>
        pin \<and> \<not> c \<and> \<not> m)
   \<and> (PinnedIcon v \<in> set (RowPainter_Paint S row ctx) \<longrightarrow>
        list_all (\<lambda>e. \<not> isBadgeEvent e) (RowPainter_Paint S row ctx))"
  using displayPinnedIcon_flags [of row ctx]
    PinnedIcon_PaintWideCounter [of v S ctx w c m me re pin n mu mm]
    RowPainter_Paint_pinned_no_badge [of v S row ctx]
  by (auto simp: list_all_iff)

lemma QString_number_3: "QString_number 3 = ''3''"
  by (simp add: QString_number_def decimal.simps digitChar_def)

theorem displayPinnedIcon_excludes_badges_witness:
  "displayPinnedIcon pinnedRow wideContext
   \<and> \<not> displayUnreadCounter pinnedRow
   \<and> \<not> displayMentionBadge pinnedRow
   \<and> PinnedIcon Plain \<in> set (RowPainter_Paint exampleConsts pinnedRow wideContext)
   \<and> list_all (\<lambda>e. \<not> isBadgeEvent e) (RowPainter_Paint exampleConsts pinnedRow wideContext)"
proof -
  have pinned: "displayPinnedIcon pinnedRow wideContext"
    by (simp add: row_defs pinnedRow_def exampleRow_def example_defs pinnedDialogShown_def)
  have painted: "PinnedIcon Plain \<in> set (RowPainter_Paint exampleConsts pinnedRow wideContext)"
    by (simp add: row_defs counter_defs paint_defs pinnedRow_def row_example_defs example_defs)
  from pinned painted
    displayPinnedIcon_excludes_badges
      [of pinnedRow wideContext Plain exampleConsts 0 False False False False False 0 False False]
  show ?thesis
    by simp
qed

subsection \<open>The cloud draft\<close>

lemma trailingLine_draft_line:
  "SetCacheText DraftPreviewText \<in> set (fst (trailingLine a d))
     \<or> DrawCache DraftPalette v \<in> set (fst (trailingLine a d))
   \<Longrightarrow> d \<noteq> None \<and> \<not> e_supportMode (a_entry a)"
  unfolding trailingLine_def Let_def
  by (auto split: if_splits option.splits dest: pinnedIconEvents_event)

lemma PaintRow_draft_line:
  assumes "SetCacheText DraftPreviewText \<in> set (PaintRow a)
     \<or> DrawCache DraftPalette v \<in> set (PaintRow a)"
  shows "localDraft a \<noteq> None"
proof -
  from assms
  have "SetCacheText DraftPreviewText \<in> set (fst (trailingLine a (localDraft a)))
     \<or> DrawCache DraftPalette v \<in> set (fst (trailingLine a (localDraft a)))"
    by (auto dest!: PaintRow_event cornerEvents_event nameEvents_event)
  with trailingLine_draft_line [of a "localDraft a" v] show ?thesis
    by blast
qed

lemma rowWideCounter_event:
  "e \<in> set (rowWideCounter S row ctx w) \<Longrightarrow> isBadgeEvent e \<or> (\<exists>v. e = PinnedIcon v)"
  by (auto simp: rowWideCounter_def PaintWideCounter_def wideFirst_def Let_def isBadgeEvent_def
      dest: PaintUnreadBadge_isBadgeEvent split: if_splits)

lemma RowPainter_Paint_draft_line:
  assumes "SetCacheText DraftPreviewText \<in> set (RowPainter_Paint S row ctx)
     \<or> DrawCache DraftPalette v \<in> set (RowPainter_Paint S row ctx)"
  shows "cloudDraft row \<noteq> None"
proof -
  have item: "e \<notin> set (paintItemCallback S row ctx l w)"
    if "e = SetCacheText DraftPreviewText \<or> e = DrawCache DraftPalette v" for e l w
    using that paintItemCallback_event [of e S row ctx l w] rowWideCounter_event [of e S row ctx w]
    by (auto simp: isBadgeEvent_def)
  have counter: "e \<notin> set (paintCounterCallback S row ctx)"
    if "e = SetCacheText DraftPreviewText \<or> e = DrawCache DraftPalette v" for e
    using that PaintNarrowCounter_isBadgeEvent [of e]
    by (auto simp: paintCounterCallback_def isBadgeEvent_def)
  from assms item counter
  have "SetCacheText DraftPreviewText \<in> set (PaintRow (rowArgs row ctx))
     \<or> DrawCache DraftPalette v \<in> set (PaintRow (rowArgs row ctx))"
    by (auto dest!: RowPainter_Paint_event)
  then have "localDraft (rowArgs row ctx) \<noteq> None"
    by (rule PaintRow_draft_line)
  then show ?thesis
    by (simp add: localDraft_def rowArgs_def split: if_splits)
qed

lemma trailingLine_item:
  assumes "\<not> promotedWithBanner a"
    and "d = None" and "\<not> (e_supportMode (a_entry a) \<and> e_isOccupiedBySomeone (a_entry a))"
    and "a_item a \<noteq> None" and "\<not> itemIsEmpty a"
  shows "CallPaintItem (ctx_nameLeft (a_context a))
            (ctx_width (a_context a) - ctx_nameLeft (a_context a)
               - ctx_paddingRight (a_context a))
           \<in> set (fst (trailingLine a d))"
  using assms unfolding trailingLine_def Let_def promotedWithBanner_def itemIsEmpty_def
  by (auto split: option.splits)

lemma RowPainter_Paint_item_event:
  assumes "CallPaintItem l w \<in> set (PaintRow (rowArgs row ctx))"
    and "e \<in> set (paintItemCallback S row ctx l w)"
  shows "e \<in> set (RowPainter_Paint S row ctx)"
proof -
  from assms(2)
  have "e \<in> set (runCallback (paintItemCallback S row ctx) (paintCounterCallback S row ctx)
                    (CallPaintItem l w))"
    by (simp add: runCallback_def)
  with assms(1) show ?thesis
    unfolding RowPainter_Paint_def by (auto simp del: set_concat simp: set_concat)
qed

lemma paintItemCallback_view:
  assumes "r_thread row \<noteq> None" and "\<not> r_folder row" and "\<not> sendActionPainted (r_thread row)"
  shows "ItemViewPaint \<in> set (paintItemCallback S row ctx l w)"
  using assms by (auto simp: paintItemCallback_def Let_def)

lemma cloudDraft_None:
  assumes "0 < e_chatListUnreadCount (r_entry row) \<or> e_chatListUnreadMark (r_entry row)"
    and "e_chatListMessage (r_entry row) \<noteq> None"
  shows "cloudDraft row = None"
  using assms by (auto simp: cloudDraft_def Let_def split: option.splits)

text \<open>
  Claim C8, as amended.  In \<^verbatim>\<open>RowPainter::Paint\<close> for a row of the list the cloud
  draft is consulted only when there is a thread and either no message or both a zero
  unread count and no unread mark.  Whenever the row has a positive unread count or an
  unread mark and a message exists, the draft is treated as absent: \<^verbatim>\<open>PaintRow\<close>
  gets a null draft, and neither the draft preview text nor the draft palette is used.
  The last message is then previewed when the row is wider than \<^verbatim>\<open>nameLeft\<close>, shows
  no promotion banner text, is not occupied in support mode, the message is not empty,
  the row has a thread and no folder, and no typing animation is painted.
\<close>

theorem cloudDraft_only_without_unread:
  "(cloudDraft row \<noteq> None \<longrightarrow>
      r_thread row \<noteq> None
      \<and> (e_chatListMessage (r_entry row) = None
          \<or> (e_chatListUnreadCount (r_entry row) = 0 \<and> \<not> e_chatListUnreadMark (r_entry row))))
   \<and> ((0 < e_chatListUnreadCount (r_entry row) \<or> e_chatListUnreadMark (r_entry row))
        \<and> e_chatListMessage (r_entry row) \<noteq> None \<longrightarrow>
        cloudDraft row = None
        \<and> a_draft (rowArgs row ctx) = None
        \<and> SetCacheText DraftPreviewText \<notin> set (RowPainter_Paint S row ctx)
        \<and> DrawCache DraftPalette v \<notin> set (RowPainter_Paint S row ctx)
        \<and> (\<not> ctx_width ctx \<le> ctx_nameLeft ctx
            \<and> \<not> promotedWithBanner (rowArgs row ctx)
            \<and> \<not> (e_supportMode (r_entry row) \<and> e_isOccupiedBySomeone (r_entry row))
            \<and> \<not> itemIsEmpty (rowArgs row ctx)
            \<and> r_thread row \<noteq> None \<and> \<not> r_folder row
            \<and> \<not> sendActionPainted (r_thread row) \<longrightarrow>
            ItemViewPaint \<in> set (RowPainter_Paint S row ctx)))"
proof -
  have consulted: "r_thread row \<noteq> None
      \<and> (e_chatListMessage (r_entry row) = None
          \<or> (e_chatListUnreadCount (r_entry row) = 0 \<and> \<not> e_chatListUnreadMark (r_entry row)))"
    if "cloudDraft row \<noteq> None"
    using that by (auto simp: cloudDraft_def Let_def split: option.splits if_splits)
  have absent: "cloudDraft row = None
        \<and> a_draft (rowArgs row ctx) = None
        \<and> SetCacheText DraftPreviewText \<notin> set (RowPainter_Paint S row ctx)
        \<and> DrawCache DraftPalette v \<notin> set (RowPainter_Paint S row ctx)"
    if "0 < e_chatListUnreadCount (r_entry row) \<or> e_chatListUnreadMark (r_entry row)"
      and "e_chatListMessage (r_entry row) \<noteq> None"
  proof -
    from that have none: "cloudDraft row = None"
      by (rule cloudDraft_None)
    with RowPainter_Paint_draft_line [of S row ctx v] show ?thesis
      by (auto simp: rowArgs_def)
  qed
  have preview: "ItemViewPaint \<in> set (RowPainter_Paint S row ctx)"
    if unread: "0 < e_chatListUnreadCount (r_entry row) \<or> e_chatListUnreadMark (r_entry row)"
      and message: "e_chatListMessage (r_entry row) \<noteq> None"
      and wide: "\<not> ctx_width ctx \<le> ctx_nameLeft ctx"
      and banner: "\<not> promotedWithBanner (rowArgs row ctx)"
      and occupied: "\<not> (e_supportMode (r_entry row) \<and> e_isOccupiedBySomeone (r_entry row))"
      and empty: "\<not> itemIsEmpty (rowArgs row ctx)"
      and thread: "r_thread row \<noteq> None" "\<not> r_folder row" "\<not> sendActionPainted (r_thread row)"
  proof -
    let ?a = "rowArgs row ctx"
    from unread message have "cloudDraft row = None"
      by (rule cloudDraft_None)
    then have draft: "localDraft ?a = None"
      by (simp add: localDraft_def rowArgs_def)
    have "CallPaintItem (ctx_nameLeft (a_context ?a))
            (ctx_width (a_context ?a) - ctx_nameLeft (a_context ?a)
               - ctx_paddingRight (a_context ?a))
           \<in> set (fst (trailingLine ?a (localDraft ?a)))"
      using banner draft occupied message empty
      by (intro trailingLine_item) (simp_all add: rowArgs_def)
    with wide have "CallPaintItem (ctx_nameLeft (a_context ?a))
            (ctx_width (a_context ?a) - ctx_nameLeft (a_context ?a)
               - ctx_paddingRight (a_context ?a))
           \<in> set (PaintRow ?a)"
      by (simp add: PaintRow_wide)
    then show ?thesis
      by (rule RowPainter_Paint_item_event) (rule paintItemCallback_view [OF thread])
  qed
  from consulted absent preview show ?thesis
    by blast
qed

theorem cloudDraft_only_without_unread_witness:
  "0 < e_chatListUnreadCount (r_entry exampleRow)
   \<and> e_chatListMessage (r_entry exampleRow) = Some exampleItem
   \<and> t_cloudDraft exampleThread = Some exampleDraft
   \<and> cloudDraft exampleRow = None
   \<and> SetCacheText DraftPreviewText \<notin> set (RowPainter_Paint exampleConsts exampleRow wideContext)
   \<and> ItemViewPaint \<in> set (RowPainter_Paint exampleConsts exampleRow wideContext)"
proof -
  have "0 < e_chatListUnreadCount (r_entry exampleRow)"
    "e_chatListMessage (r_entry exampleRow) = Some exampleItem"
    "t_cloudDraft exampleThread = Some exampleDraft"
    "\<not> ctx_width wideContext \<le> ctx_nameLeft wideContext"
    "\<not> promotedWithBanner (rowArgs exampleRow wideContext)"
    "\<not> (e_supportMode (r_entry exampleRow) \<and> e_isOccupiedBySomeone (r_entry exampleRow))"
    "\<not> itemIsEmpty (rowArgs exampleRow wideContext)"
    "r_thread exampleRow \<noteq> None" "\<not> r_folder exampleRow"
    "\<not> sendActionPainted (r_thread exampleRow)"
    by (simp_all add: exampleRow_def example_defs promotedWithBanner_def promoted_def
        itemIsEmpty_def rowArgs_def sendActionPainted_def ShowSendActionInDialogs_def)
  with cloudDraft_only_without_unread [of exampleRow wideContext exampleConsts Plain]
  show ?thesis
    by simp
qed

text \<open>
  Claim C8 as stated has the last message previewed whenever the row has a positive
  unread count and a message.  A promoted row with a banner text, three unread messages
  and a cloud draft shows the banner text; the same row without the promotion, in a
  context no wider than \<^verbatim>\<open>nameLeft\<close>, shows the userpic and the counter.  Neither paints
  the preview of the last message.
\<close>

theorem cloudDraft_preview_counterexample:
  "0 < e_chatListUnreadCount (r_entry psaRow)
   \<and> e_chatListMessage (r_entry psaRow) = Some exampleItem
   \<and> \<not> i_isEmpty exampleItem
   \<and> cloudDraft psaRow = None
   \<and> RowPainter_Paint exampleConsts psaRow wideContext
       = [FillRect Plain, PaintRipple, PaintUserpic (PeerUserpic True),
          RowTopRight PsaDefault Plain, Trailing PromotionBanner,
          SetCacheText PromotionMessageText, DrawCache DefaultPalette Plain,
          SendStateIcon SentIcon Plain, PeerBadge Plain, NameText FromName Plain]
   \<and> ItemViewPaint \<notin> set (RowPainter_Paint exampleConsts psaRow wideContext)
   \<and> 0 < e_chatListUnreadCount (r_entry exampleRow)
   \<and> e_chatListMessage (r_entry exampleRow) = Some exampleItem
   \<and> cloudDraft exampleRow = None
   \<and> RowPainter_Paint exampleConsts exampleRow narrowContext
       = [FillRect Plain, PaintRipple, PaintUserpic (PeerUserpic False),
          BadgePixmapLeft Dialogs 0, BadgeBar DialogsUnreadBg 1,
          BadgePixmapRight Dialogs 0, BadgeText ''3'' Plain]
   \<and> ItemViewPaint \<notin> set (RowPainter_Paint exampleConsts exampleRow narrowContext)"
proof -
  have psa: "RowPainter_Paint exampleConsts psaRow wideContext
       = [FillRect Plain, PaintRipple, PaintUserpic (PeerUserpic True),
          RowTopRight PsaDefault Plain, Trailing PromotionBanner,
          SetCacheText PromotionMessageText, DrawCache DefaultPalette Plain,
          SendStateIcon SentIcon Plain, PeerBadge Plain, NameText FromName Plain]"
    by (simp add: row_defs paint_defs psaRow_def psaHistory_def row_example_defs example_defs)
  have narrow: "RowPainter_Paint exampleConsts exampleRow narrowContext
       = [FillRect Plain, PaintRipple, PaintUserpic (PeerUserpic False),
          BadgePixmapLeft Dialogs 0, BadgeBar DialogsUnreadBg 1,
          BadgePixmapRight Dialogs 0, BadgeText ''3'' Plain]"
    by (simp add: row_defs paint_defs counter_defs QString_number_3 row_example_defs
        example_defs)
  have "0 < e_chatListUnreadCount (r_entry psaRow)"
    "e_chatListMessage (r_entry psaRow) = Some exampleItem"
    "\<not> i_isEmpty exampleItem"
    "cloudDraft psaRow = None"
    "0 < e_chatListUnreadCount (r_entry exampleRow)"
    "e_chatListMessage (r_entry exampleRow) = Some exampleItem"
    "cloudDraft exampleRow = None"
    by (simp_all add: cloudDraft_def psaRow_def exampleRow_def example_defs)
  with psa narrow show ?thesis
    by simp
qed

subsection \<open>The unread counter and the mention badge\<close>

lemma decimal_nonempty: "decimal n \<noteq> []"
  by (subst decimal.simps) simp

lemma QString_number_nonempty: "QString_number i \<noteq> []"
  by (simp add: QString_number_def decimal_nonempty)

lemma ComputeUnreadBadgeText_empty: "(ComputeUnreadBadgeText s d = []) = (s = [])"
  by (auto simp: ComputeUnreadBadgeText_def)

lemma counterText_PaintUnreadBadge:
  "list_ex isCounterText (fst (PaintUnreadBadge c st d)) = (c \<noteq> [])"
  by (simp add: PaintUnreadBadge_def PaintUnreadBadgeRect_def Let_def isCounterText_def
      ComputeUnreadBadgeText_empty)

lemma counterText_PaintNarrowCounter:
  "list_ex isCounterText (PaintNarrowCounter S ctx c m me re n mu mm) = ((c \<or> m) \<and> 0 < n)"
  by (simp add: PaintNarrowCounter_def Let_def counterText_PaintUnreadBadge isCounterText_def
      QString_number_nonempty)

lemma counterText_PaintWideCounter:
  "list_ex isCounterText (fst (PaintWideCounter S ctx w c m me re pin n mu mm))
     = ((c \<or> m) \<and> 0 < n)"
  by (simp add: PaintWideCounter_def wideFirst_def Let_def counterText_PaintUnreadBadge
      isCounterText_def QString_number_nonempty)

lemma displayUnreadCounter_or_mark:
  "((displayUnreadCounter row \<or> displayUnreadMark row)
      \<and> 0 < e_chatListUnreadCount (r_entry row))
     = displayUnreadCounter row"
  by (auto simp: displayUnreadCounter_def displayUnreadMark_def split: if_splits)

lemma counterText_paintItemCallback:
  "list_ex isCounterText (paintItemCallback S row ctx l w) = displayUnreadCounter row"
proof -
  have "list_ex isCounterText (paintItemCallback S row ctx l w)
      = list_ex isCounterText (rowWideCounter S row ctx w)"
    by (simp add: paintItemCallback_def rowWideCounter_def Let_def PaintListEntryText_def
        isCounterText_def split: option.splits)
  then show ?thesis
    by (simp add: rowWideCounter_def counterText_PaintWideCounter displayUnreadCounter_or_mark)
qed

lemma counterText_paintCounterCallback:
  "list_ex isCounterText (paintCounterCallback S row ctx) = displayUnreadCounter row"
  by (simp add: paintCounterCallback_def counterText_PaintNarrowCounter
      displayUnreadCounter_or_mark)

lemma CallPaintCounter_PaintRow:
  "(CallPaintCounter \<in> set (PaintRow a))
     = (ctx_width (a_context a) \<le> ctx_nameLeft (a_context a)
        \<and> localDraft a = None \<and> a_item a \<noteq> None \<and> \<not> itemIsEmpty a)"
proof (cases "ctx_width (a_context a) \<le> ctx_nameLeft (a_context a)")
  case True
  then show ?thesis
    by (simp add: PaintRow_narrow)
next
  case False
  with PaintRow_counter_call(2) [of a] PaintRow_event [of CallPaintCounter a] show ?thesis
    by (auto dest!: cornerEvents_event nameEvents_event trailingLine_event)
qed

lemma CallPaintItem_trailingLine:
  "CallPaintItem l w \<in> set (fst (trailingLine a d)) \<Longrightarrow>
     \<not> promotedWithBanner a
     \<and> \<not> (d \<noteq> None \<or> (e_supportMode (a_entry a) \<and> e_isOccupiedBySomeone (a_entry a)))
     \<and> a_item a \<noteq> None \<and> \<not> itemIsEmpty a"
  unfolding trailingLine_def Let_def promotedWithBanner_def itemIsEmpty_def
  by (auto split: if_splits option.splits dest: pinnedIconEvents_event)

lemma CallPaintItem_PaintRow:
  "(\<exists>l w. CallPaintItem l w \<in> set (PaintRow a))
     = (\<not> ctx_width (a_context a) \<le> ctx_nameLeft (a_context a)
        \<and> \<not> promotedWithBanner a \<and> \<not> draftOrOccupied a
        \<and> a_item a \<noteq> None \<and> \<not> itemIsEmpty a)"
proof
  assume "\<exists>l w. CallPaintItem l w \<in> set (PaintRow a)"
  then obtain l w where call: "CallPaintItem l w \<in> set (PaintRow a)"
    by blast
  from PaintRow_event [OF call]
  have wide: "\<not> ctx_width (a_context a) \<le> ctx_nameLeft (a_context a)"
    and arm: "CallPaintItem l w \<in> set (fst (trailingLine a (localDraft a)))"
    by (auto dest!: cornerEvents_event nameEvents_event)
  from CallPaintItem_trailingLine [OF arm] wide
  show "\<not> ctx_width (a_context a) \<le> ctx_nameLeft (a_context a)
        \<and> \<not> promotedWithBanner a \<and> \<not> draftOrOccupied a
        \<and> a_item a \<noteq> None \<and> \<not> itemIsEmpty a"
    by (simp add: draftOrOccupied_def)
next
  assume state: "\<not> ctx_width (a_context a) \<le> ctx_nameLeft (a_context a)
        \<and> \<not> promotedWithBanner a \<and> \<not> draftOrOccupied a
        \<and> a_item a \<noteq> None \<and> \<not> itemIsEmpty a"
  then have "CallPaintItem (ctx_nameLeft (a_context a))
            (ctx_width (a_context a) - ctx_nameLeft (a_context a)
               - ctx_paddingRight (a_context a))
           \<in> set (fst (trailingLine a (localDraft a)))"
    by (intro trailingLine_item) (auto simp: draftOrOccupied_def)
  with state show "\<exists>l w. CallPaintItem l w \<in> set (PaintRow a)"
    by (auto simp: PaintRow_wide)
qed

lemma callbackReached_calls:
  "callbackReached a
     = (CallPaintCounter \<in> set (PaintRow a) \<or> (\<exists>l w. CallPaintItem l w \<in> set (PaintRow a)))"
  unfolding CallPaintCounter_PaintRow CallPaintItem_PaintRow callbackReached_def
  by auto

lemma RowPainter_Paint_counter_event:
  assumes "CallPaintCounter \<in> set (PaintRow (rowArgs row ctx))"
    and "e \<in> set (paintCounterCallback S row ctx)"
  shows "e \<in> set (RowPainter_Paint S row ctx)"
proof -
  from assms(2)
  have "e \<in> set (runCallback (paintItemCallback S row ctx) (paintCounterCallback S row ctx)
                    CallPaintCounter)"
    by (simp add: runCallback_def)
  with assms(1) show ?thesis
    unfolding RowPainter_Paint_def by (auto simp del: set_concat simp: set_concat)
qed

lemma counterText_RowPainter_Paint:
  "list_ex isCounterText (RowPainter_Paint S row ctx)
     = (displayUnreadCounter row \<and> callbackReached (rowArgs row ctx))"
proof
  assume "list_ex isCounterText (RowPainter_Paint S row ctx)"
  then obtain e where e: "e \<in> set (RowPainter_Paint S row ctx)" and count: "isCounterText e"
    by (auto simp: list_ex_iff)
  from count have badge: "isBadgeEvent e"
    by (cases e) (simp_all add: isCounterText_def isBadgeEvent_def)
  from RowPainter_Paint_event [OF e] badge
  consider (item) l w where "CallPaintItem l w \<in> set (PaintRow (rowArgs row ctx))"
      "e \<in> set (paintItemCallback S row ctx l w)"
    | (counter) "CallPaintCounter \<in> set (PaintRow (rowArgs row ctx))"
      "e \<in> set (paintCounterCallback S row ctx)"
    by (auto dest: PaintRow_no_badge)
  then show "displayUnreadCounter row \<and> callbackReached (rowArgs row ctx)"
  proof cases
    case item
    from item(2) count have "list_ex isCounterText (paintItemCallback S row ctx l w)"
      by (auto simp: list_ex_iff)
    with item(1) show ?thesis
      by (auto simp: counterText_paintItemCallback callbackReached_calls)
  next
    case counter
    from counter(2) count have "list_ex isCounterText (paintCounterCallback S row ctx)"
      by (auto simp: list_ex_iff)
    with counter(1) show ?thesis
      by (auto simp: counterText_paintCounterCallback callbackReached_calls)
  qed
next
  assume painted: "displayUnreadCounter row \<and> callbackReached (rowArgs row ctx)"
  then consider (counter) "CallPaintCounter \<in> set (PaintRow (rowArgs row ctx))"
    | (item) l w where "CallPaintItem l w \<in> set (PaintRow (rowArgs row ctx))"
    by (auto simp: callbackReached_calls)
  then show "list_ex isCounterText (RowPainter_Paint S row ctx)"
  proof cases
    case counter
    from painted have "list_ex isCounterText (paintCounterCallback S row ctx)"
      by (simp add: counterText_paintCounterCallback)
    then obtain e where "e \<in> set (paintCounterCallback S row ctx)" "isCounterText e"
      by (auto simp: list_ex_iff)
    with counter show ?thesis
      by (auto simp: list_ex_iff dest: RowPainter_Paint_counter_event)
  next
    case item
    from painted have "list_ex isCounterText (paintItemCallback S row ctx l w)"
      by (simp add: counterText_paintItemCallback)
    then obtain e where "e \<in> set (paintItemCallback S row ctx l w)" "isCounterText e"
      by (auto simp: list_ex_iff)
    with item show ?thesis
      by (auto simp: list_ex_iff dest: RowPainter_Paint_item_event)
  qed
qed

lemma mentionIcon_RowPainter_Paint:
  assumes "displayMentionBadge row" and "callbackReached (rowArgs row ctx)"
  shows "BadgeIcon UnreadMentionIcon (variantOf (ctx_active ctx) (ctx_selected ctx))
           \<in> set (RowPainter_Paint S row ctx)"
proof -
  let ?icon = "BadgeIcon UnreadMentionIcon (variantOf (ctx_active ctx) (ctx_selected ctx))"
  from assms(2) consider (counter) "CallPaintCounter \<in> set (PaintRow (rowArgs row ctx))"
    | (item) l w where "CallPaintItem l w \<in> set (PaintRow (rowArgs row ctx))"
    by (auto simp: callbackReached_calls)
  then show ?thesis
  proof cases
    case counter
    from assms(1) have "?icon \<in> set (paintCounterCallback S row ctx)"
      by (simp add: paintCounterCallback_def PaintNarrowCounter_def Let_def)
    with counter show ?thesis
      by (rule RowPainter_Paint_counter_event)
  next
    case item
    from assms(1) have "?icon \<in> set (paintItemCallback S row ctx l w)"
      by (simp add: paintItemCallback_def PaintWideCounter_def Let_def)
    with item show ?thesis
      by (rule RowPainter_Paint_item_event)
  qed
qed

text \<open>
  Claim C10, as amended.  In \<^verbatim>\<open>RowPainter::Paint\<close> for a row of the list the flag
  \<open>displayUnreadCounter\<close> is false when the mention badge is displayed, the unread count
  is exactly one and the message of the row is the unread mention; in every other state
  it is true exactly when the unread count is positive.  The counter (a badge with a
  count as its text) is painted exactly when the flag is true and \<^verbatim>\<open>PaintRow\<close> calls
  one of its two callbacks: the message exists and is not empty, and either the width is
  at most \<^verbatim>\<open>nameLeft\<close> and there is no draft, or the row is wider, has no promotion
  banner text, no draft and is not occupied in support mode.  In the suppressed state
  only the flag of the mention badge is set, no counter is painted, and the mention
  badge is painted under that same condition.
\<close>

theorem unread_counter_painted:
  "displayUnreadCounter row
     = (if onlyUnreadIsMention row then False else 0 < e_chatListUnreadCount (r_entry row))
   \<and> list_ex isCounterText (RowPainter_Paint S row ctx)
       = (displayUnreadCounter row \<and> callbackReached (rowArgs row ctx))
   \<and> (onlyUnreadIsMention row \<longrightarrow>
        \<not> displayUnreadCounter row \<and> displayMentionBadge row
        \<and> \<not> displayUnreadMark row \<and> \<not> displayReactionBadge row
        \<and> \<not> displayPinnedIcon row ctx
        \<and> \<not> list_ex isCounterText (RowPainter_Paint S row ctx)
        \<and> (callbackReached (rowArgs row ctx) \<longrightarrow>
             BadgeIcon UnreadMentionIcon (variantOf (ctx_active ctx) (ctx_selected ctx))
               \<in> set (RowPainter_Paint S row ctx)))"
proof -
  have counter: "displayUnreadCounter row
     = (if onlyUnreadIsMention row then False else 0 < e_chatListUnreadCount (r_entry row))"
    by (simp add: displayUnreadCounter_def onlyUnreadIsMention_def)
  have "\<not> displayUnreadCounter row \<and> displayMentionBadge row
        \<and> \<not> displayUnreadMark row \<and> \<not> displayReactionBadge row
        \<and> \<not> displayPinnedIcon row ctx
        \<and> \<not> list_ex isCounterText (RowPainter_Paint S row ctx)
        \<and> (callbackReached (rowArgs row ctx) \<longrightarrow>
             BadgeIcon UnreadMentionIcon (variantOf (ctx_active ctx) (ctx_selected ctx))
               \<in> set (RowPainter_Paint S row ctx))"
    if only: "onlyUnreadIsMention row"
  proof -
    from only have flags: "\<not> displayUnreadCounter row" "displayMentionBadge row"
      "\<not> displayUnreadMark row" "\<not> displayReactionBadge row" "\<not> displayPinnedIcon row ctx"
      by (simp_all add: counter onlyUnreadIsMention_def displayUnreadMark_def
          displayReactionBadge_def displayPinnedIcon_def)
    with mentionIcon_RowPainter_Paint [of row ctx S] show ?thesis
      by (simp add: counterText_RowPainter_Paint)
  qed
  with counter counterText_RowPainter_Paint [of S row ctx] show ?thesis
    by blast
qed

theorem unread_counter_painted_witness:
  "displayUnreadCounter exampleRow
   \<and> callbackReached (rowArgs exampleRow wideContext)
   \<and> list_ex isCounterText (RowPainter_Paint exampleConsts exampleRow wideContext)
   \<and> callbackReached (rowArgs exampleRow narrowContext)
   \<and> list_ex isCounterText (RowPainter_Paint exampleConsts exampleRow narrowContext)
   \<and> onlyUnreadIsMention mentionRow
   \<and> callbackReached (rowArgs mentionRow wideContext)
   \<and> \<not> list_ex isCounterText (RowPainter_Paint exampleConsts mentionRow wideContext)
   \<and> BadgeIcon UnreadMentionIcon Plain
        \<in> set (RowPainter_Paint exampleConsts mentionRow wideContext)"
proof -
  have "onlyUnreadIsMention mentionRow"
    by (simp add: onlyUnreadIsMention_def displayMentionBadge_def mentionRow_def
        mentionThread_def mentionItem_def exampleRow_def)
  moreover have "\<not> onlyUnreadIsMention exampleRow"
    "0 < e_chatListUnreadCount (r_entry exampleRow)"
    by (simp_all add: onlyUnreadIsMention_def exampleRow_def exampleEntry_def)
  moreover have "callbackReached (rowArgs exampleRow wideContext)"
    "callbackReached (rowArgs exampleRow narrowContext)"
    "callbackReached (rowArgs mentionRow wideContext)"
    by (simp_all add: callbackReached_def rowArgs_def cloudDraft_def localDraft_def
        itemIsEmpty_def promotedWithBanner_def promoted_def draftOrOccupied_def
        mentionRow_def mentionItem_def exampleRow_def example_defs)
  moreover have "variantOf (ctx_active wideContext) (ctx_selected wideContext) = Plain"
    by (simp add: variantOf_def wideContext_def)
  ultimately show ?thesis
    using unread_counter_painted [of exampleRow exampleConsts wideContext]
      unread_counter_painted [of exampleRow exampleConsts narrowContext]
      unread_counter_painted [of mentionRow exampleConsts wideContext]
    by simp
qed

text \<open>
  Claim C10 as stated has the counter displayed whenever the unread count is positive
  outside the suppressed state, and the mention badge shown in it.  A promoted row with
  a banner text and three unread messages paints the banner text and no counter; the
  same row with one unread message that is the unread mention paints no mention badge.
\<close>

theorem unread_counter_banner_counterexample:
  "0 < e_chatListUnreadCount (r_entry psaRow)
   \<and> \<not> onlyUnreadIsMention psaRow
   \<and> displayUnreadCounter psaRow
   \<and> RowPainter_Paint exampleConsts psaRow wideContext
       = [FillRect Plain, PaintRipple, PaintUserpic (PeerUserpic True),
          RowTopRight PsaDefault Plain, Trailing PromotionBanner,
          SetCacheText PromotionMessageText, DrawCache DefaultPalette Plain,
          SendStateIcon SentIcon Plain, PeerBadge Plain, NameText FromName Plain]
   \<and> \<not> list_ex isCounterText (RowPainter_Paint exampleConsts psaRow wideContext)
   \<and> onlyUnreadIsMention psaMentionRow
   \<and> displayMentionBadge psaMentionRow
   \<and> RowPainter_Paint exampleConsts psaMentionRow wideContext
       = [FillRect Plain, PaintRipple, PaintUserpic (PeerUserpic True),
          RowTopRight PsaDefault Plain, Trailing PromotionBanner,
          SetCacheText PromotionMessageText, DrawCache DefaultPalette Plain,
          SendStateIcon SentIcon Plain, PeerBadge Plain, NameText FromName Plain]
   \<and> BadgeIcon UnreadMentionIcon Plain
        \<notin> set (RowPainter_Paint exampleConsts psaMentionRow wideContext)"
proof -
  have psa: "RowPainter_Paint exampleConsts psaRow wideContext
       = [FillRect Plain, PaintRipple, PaintUserpic (PeerUserpic True),
          RowTopRight PsaDefault Plain, Trailing PromotionBanner,
          SetCacheText PromotionMessageText, DrawCache DefaultPalette Plain,
          SendStateIcon SentIcon Plain, PeerBadge Plain, NameText FromName Plain]"
    by (simp add: row_defs paint_defs psaRow_def psaHistory_def row_example_defs example_defs)
  have mention: "RowPainter_Paint exampleConsts psaMentionRow wideContext
       = [FillRect Plain, PaintRipple, PaintUserpic (PeerUserpic True),
          RowTopRight PsaDefault Plain, Trailing PromotionBanner,
          SetCacheText PromotionMessageText, DrawCache DefaultPalette Plain,
          SendStateIcon SentIcon Plain, PeerBadge Plain, NameText FromName Plain]"
    by (simp add: row_defs paint_defs psaMentionRow_def mentionRow_def mentionThread_def
        mentionItem_def psaHistory_def row_example_defs example_defs)
  have "0 < e_chatListUnreadCount (r_entry psaRow)"
    "\<not> onlyUnreadIsMention psaRow"
    "displayUnreadCounter psaRow"
    "onlyUnreadIsMention psaMentionRow"
    "displayMentionBadge psaMentionRow"
    by (simp_all add: onlyUnreadIsMention_def displayUnreadCounter_def displayMentionBadge_def
        psaRow_def psaMentionRow_def mentionRow_def mentionThread_def mentionItem_def
        exampleRow_def example_defs)
  with psa mention show ?thesis
    by (simp add: isCounterText_def)
qed

end
